theory Spec2Isabelle
  imports Complex_Main "HOL-Library.Product_Lexorder" "HOL-Library.Multiset"
begin

section \<open>Shared Python values\<close>

text \<open>
  Exceptions of the Python program are values: a function that can raise returns
  \<open>exn + 'a\<close>, with \<open>Inl\<close> for the exception.  Console output (\<open>print\<close>) is left out
  of the model except in the orchestrator, where the log is what the specification
  talks about.  Floating-point numbers are modelled by the reals they denote.
\<close>

datatype exn =
    ImportError string string
  | KeyError
  | TypeError
  | ValueError
  | NotFittedError
  | StageError string

section \<open>map_builder.py\<close>

text \<open>\<open>get_aqi_color\<close>: the fixed AQI bucket palette.\<close>

definition get_aqi_color :: "real \<Rightarrow> string" where
  "get_aqi_color aqi =
     (if aqi \<le> 50 then ''green''
      else if aqi \<le> 100 then ''yellow''
      else if aqi \<le> 150 then ''orange''
      else if aqi \<le> 200 then ''red''
      else if aqi \<le> 300 then ''purple''
      else ''maroon'')"

text \<open>
  The three tables \<open>make_map\<close> reads.  A row carries the columns the function indexes
  (\<open>row["latitude"]\<close>, \<open>row["longitude"]\<close>, \<open>row["aqi"]\<close>, \<open>r["aod"]\<close>, \<open>r["aqi_pred"]\<close>);
  the columns read with \<open>row.get(name, default)\<close> are optional.
\<close>

record obs_point =
  op_latitude :: real
  op_longitude :: real
  op_aqi :: real
  op_city :: "string option"
  op_parameter :: "string option"

record aod_row =
  latitude :: real
  longitude :: real
  aod :: real

record pred_row =
  pr_latitude :: real
  pr_longitude :: real
  aqi_pred :: real

text \<open>
  The popup of a marker is kept structured instead of rendered to HTML: the label is
  the \<open>city\<close> column when present and the coordinates (printed with two decimals by the
  source) otherwise.
\<close>

datatype label = City string | Coordinates real real

datatype popup = ObsPopup label real string | PredPopup real

record circle_marker =
  cm_location :: "real \<times> real"
  cm_radius :: nat
  cm_color :: string
  cm_fill :: bool
  cm_fill_opacity :: real
  cm_popup :: popup

record heat_map =
  hm_data :: "(real \<times> real \<times> real) list"
  hm_name :: string
  hm_min_opacity :: real
  hm_radius :: nat
  hm_blur :: nat
  hm_max_zoom :: nat

text \<open>A \<open>folium.FeatureGroup\<close>: a named layer holding markers or one heat map.\<close>

datatype feature_group = MarkerGroup string "circle_marker list" | HeatGroup string heat_map

fun group_name :: "feature_group \<Rightarrow> string" where
  "group_name (MarkerGroup n _) = n"
| "group_name (HeatGroup n _) = n"

text \<open>
  The map document: the base map, the feature groups added to it in order, and whether
  the layer control was added.
\<close>

record folium_map =
  fm_location :: "real \<times> real"
  fm_zoom_start :: nat
  fm_tiles :: string
  fm_layers :: "feature_group list"
  fm_layer_control :: bool

definition add_to :: "feature_group \<Rightarrow> folium_map \<Rightarrow> folium_map" where
  "add_to g m = m\<lparr>fm_layers := fm_layers m @ [g]\<rparr>"

definition aqi_marker :: "obs_point \<Rightarrow> circle_marker" where
  "aqi_marker row =
     (let color = get_aqi_color (op_aqi row);
          city = (case op_city row of
                    Some c \<Rightarrow> City c
                  | None \<Rightarrow> Coordinates (op_latitude row) (op_longitude row));
          param = (case op_parameter row of Some p \<Rightarrow> p | None \<Rightarrow> ''PM2.5'')
      in \<lparr>cm_location = (op_latitude row, op_longitude row), cm_radius = 4,
          cm_color = color, cm_fill = True, cm_fill_opacity = 0.85,
          cm_popup = ObsPopup city (op_aqi row) param\<rparr>)"

definition pred_marker :: "pred_row \<Rightarrow> circle_marker" where
  "pred_marker r =
     (let color = get_aqi_color (aqi_pred r)
      in \<lparr>cm_location = (pr_latitude r, pr_longitude r), cm_radius = 4,
          cm_color = color, cm_fill = True, cm_fill_opacity = 0.75,
          cm_popup = PredPopup (aqi_pred r)\<rparr>)"

definition aod_heat :: "aod_row list \<Rightarrow> heat_map" where
  "aod_heat df_aod =
     \<lparr>hm_data = map (\<lambda>r. (latitude r, longitude r, aod r)) df_aod,
      hm_name = ''Aerosol Optical Depth'', hm_min_opacity = 0.3,
      hm_radius = 25, hm_blur = 18, hm_max_zoom = 6\<rparr>"

definition make_map ::
  "obs_point list option \<Rightarrow> aod_row list option \<Rightarrow> pred_row list option \<Rightarrow> string
     \<Rightarrow> folium_map" where
  "make_map df_aqi df_aod df_pred show_pred =
     (let m = \<lparr>fm_location = (39.5, -98.35), fm_zoom_start = 5,
               fm_tiles = ''cartodbpositron'', fm_layers = [], fm_layer_control = False\<rparr>;
          m = (case df_aqi of
                 Some rows \<Rightarrow>
                   if length rows > 0 \<and> show_pred \<in> set [''both'', ''current'']
                   then add_to (MarkerGroup ''Current AQI Levels'' (map aqi_marker rows)) m
                   else m
               | None \<Rightarrow> m);
          m = (case df_aod of
                 Some rows \<Rightarrow>
                   if length rows > 0
                   then add_to (HeatGroup ''AOD (MERRA-2)'' (aod_heat rows)) m
                   else m
               | None \<Rightarrow> m);
          m = (case df_pred of
                 Some rows \<Rightarrow>
                   if length rows > 0 \<and> show_pred \<in> set [''both'', ''predicted'']
                   then add_to (MarkerGroup ''Predicted AQI (Tomorrow)'' (map pred_marker rows)) m
                   else m
               | None \<Rightarrow> m)
      in m\<lparr>fm_layer_control := True\<rparr>)"

text \<open>An input is absent when it is \<open>None\<close> and empty when it has no rows.\<close>

definition absent :: "'a list option \<Rightarrow> bool" where
  "absent df = (case df of None \<Rightarrow> True | Some rows \<Rightarrow> rows = [])"

definition layer_names :: "folium_map \<Rightarrow> string list" where
  "layer_names m = map group_name (fm_layers m)"

definition aod_layers :: "folium_map \<Rightarrow> feature_group list" where
  "aod_layers m = filter (\<lambda>g. group_name g = ''AOD (MERRA-2)'') (fm_layers m)"

section \<open>The random number generators\<close>

text \<open>
  \<open>numpy.random\<close> and Python's \<open>random\<close> are libraries outside the repository.  A
  generator is a state of some type \<open>'s\<close> with the library's primitives as functions
  on it: seeding gives a state, and every draw returns a value and the next state.
  The program is modelled for every such generator.
\<close>

record 's np_random =
  np_seed :: "nat \<Rightarrow> 's"
  np_random_sample :: "'s \<Rightarrow> real \<times> 's"
  np_standard_normal :: "'s \<Rightarrow> real \<times> 's"

fun draws :: "('s \<Rightarrow> real \<times> 's) \<Rightarrow> nat \<Rightarrow> 's \<Rightarrow> real list \<times> 's" where
  "draws f 0 s = ([], s)"
| "draws f (Suc n) s =
     (case f s of (x, s') \<Rightarrow> (case draws f n s' of (xs, s'') \<Rightarrow> (x # xs, s'')))"

text \<open>\<open>np.random.uniform(low, high, n)\<close> and \<open>np.random.normal(loc, scale, n)\<close>.\<close>

definition np_uniform :: "'s np_random \<Rightarrow> real \<Rightarrow> real \<Rightarrow> nat \<Rightarrow> 's \<Rightarrow> real list \<times> 's" where
  "np_uniform R low high n s =
     (case draws (np_random_sample R) n s of
        (us, s') \<Rightarrow> (map (\<lambda>u. low + (high - low) * u) us, s'))"

definition np_normal :: "'s np_random \<Rightarrow> real \<Rightarrow> real \<Rightarrow> nat \<Rightarrow> 's \<Rightarrow> real list \<times> 's" where
  "np_normal R loc scale n s =
     (case draws (np_standard_normal R) n s of
        (zs, s') \<Rightarrow> (map (\<lambda>z. loc + scale * z) zs, s'))"

text \<open>\<open>np.clip(x, lo, hi)\<close> on one element: \<open>minimum(maximum(x, lo), hi)\<close>.\<close>

definition np_clip :: "real \<Rightarrow> real \<Rightarrow> real \<Rightarrow> real" where
  "np_clip x lo hi = min (max x lo) hi"

text \<open>The contract of \<open>random_sample\<close>: a value of the half-open unit interval.\<close>

definition unit_samples :: "'s np_random \<Rightarrow> bool" where
  "unit_samples R = (\<forall>s. 0 \<le> fst (np_random_sample R s) \<and> fst (np_random_sample R s) < 1)"

text \<open>
  Python's \<open>random\<close>, with the three calls the point fetcher makes.  \<open>random.choice\<close> is
  used on lists of strings only.
\<close>

record 's py_random =
  rnd_seed :: "int \<Rightarrow> 's"
  rnd_choice :: "string list \<Rightarrow> 's \<Rightarrow> string \<times> 's"
  rnd_uniform :: "real \<Rightarrow> real \<Rightarrow> 's \<Rightarrow> real \<times> 's"
  rnd_randint :: "int \<Rightarrow> int \<Rightarrow> 's \<Rightarrow> int \<times> 's"

text \<open>The contract of \<open>random.choice\<close>: an element of the sequence.\<close>

definition choice_member :: "'s py_random \<Rightarrow> bool" where
  "choice_member R = (\<forall>xs s. xs \<noteq> [] \<longrightarrow> fst (rnd_choice R xs s) \<in> set xs)"

text \<open>
  Two small concrete generators over a counter, to run the definitions on concrete
  inputs.
\<close>

definition counter_np :: "nat np_random" where
  "counter_np =
     \<lparr>np_seed = (\<lambda>k. k),
      np_random_sample = (\<lambda>s. (real (s mod 10) / 10, Suc s)),
      np_standard_normal = (\<lambda>s. (real (s mod 7) - 3, Suc s))\<rparr>"

definition counter_rnd :: "nat py_random" where
  "counter_rnd =
     \<lparr>rnd_seed = (\<lambda>k. nat k),
      rnd_choice = (\<lambda>xs s. (xs ! (s mod length xs), Suc s)),
      rnd_uniform = (\<lambda>a b s. (a + (b - a) * (real (s mod 10) / 10), Suc s)),
      rnd_randint = (\<lambda>a b s. (a + int (s mod nat (b - a + 1)), Suc s))\<rparr>"

section \<open>fetch_aod.py\<close>

text \<open>
  \<open>_mock_aod_data\<close> (a name cannot start with an underscore here, so the private
  functions of the source lose theirs): seed 1, then three
  uniform draws of \<open>n\<close> values each, in the order of the dictionary literal.
\<close>

definition mock_aod_data :: "'s np_random \<Rightarrow> nat \<Rightarrow> aod_row list" where
  "mock_aod_data R n =
     (let s = np_seed R 1;
          (lat, s) = np_uniform R 24 49.5 n s;
          (lon, s) = np_uniform R (-125) (-66.5) n s;
          (a, s) = np_uniform R 0 1 n s
      in map (\<lambda>(la, lo, v). \<lparr>latitude = la, longitude = lo, aod = v\<rparr>) (zip lat (zip lon a)))"

definition np_repeat :: "'a list \<Rightarrow> nat \<Rightarrow> 'a list" where
  "np_repeat xs n = concat (map (replicate n) xs)"

definition np_tile :: "'a list \<Rightarrow> nat \<Rightarrow> 'a list" where
  "np_tile xs n = concat (replicate n xs)"

text \<open>
  \<open>pd.DataFrame\<close> of three columns: columns of different lengths raise \<open>ValueError\<close>.
\<close>

definition aod_frame :: "real list \<Rightarrow> real list \<Rightarrow> real list \<Rightarrow> exn + aod_row list" where
  "aod_frame lat lon vals =
     (if length lat = length lon \<and> length lon = length vals
      then Inr (map (\<lambda>(la, lo, v). \<lparr>latitude = la, longitude = lo, aod = v\<rparr>)
                  (zip lat (zip lon vals)))
      else Inl ValueError)"

text \<open>
  \<open>load_aod_data\<close>.  The archive is outside the program: \<open>granule\<close> is \<open>None\<close> when
  anything before the construction of the table raises (import, login, search, download,
  opening the file, indexing), and otherwise the grid's \<open>lat\<close> and \<open>lon\<close> axes and the
  flattened first time slice of \<open>TOTEXTTAU\<close>.  The table is built inside the same
  \<open>try\<close>, so a failure there falls back to the mock as well.  The crop follows.
\<close>

definition load_aod_data ::
  "'s np_random \<Rightarrow> (real list \<times> real list \<times> real list) option \<Rightarrow> aod_row list" where
  "load_aod_data R granule =
     (let df = (case granule of
                  None \<Rightarrow> mock_aod_data R 3000
                | Some (lat, lon, vals) \<Rightarrow>
                    (case aod_frame (np_repeat lat (length lon)) (np_tile lon (length lat)) vals of
                       Inl e \<Rightarrow> mock_aod_data R 3000
                     | Inr df \<Rightarrow> df))
      in filter (\<lambda>r. latitude r \<ge> 24 \<and> latitude r \<le> 49.5
                    \<and> longitude r \<ge> -125 \<and> longitude r \<le> -66.5) df)"

section \<open>predict_aqi.py\<close>

text \<open>
  A historical sample.  A date is its day number, so \<open>d + 1\<close> is the day after \<open>d\<close>.
\<close>

record hist_row =
  date :: int
  hr_latitude :: real
  hr_longitude :: real
  hr_aqi :: real

text \<open>\<open>pd.date_range(start, end)\<close>: every day from \<open>start\<close> to \<open>end\<close>, both included.\<close>

definition date_range :: "int \<Rightarrow> int \<Rightarrow> int list" where
  "date_range start stop = [start..stop]"

definition day_frame :: "int \<Rightarrow> real list \<Rightarrow> real list \<Rightarrow> real list \<Rightarrow> hist_row list" where
  "day_frame d lat lon aqi =
     map (\<lambda>(la, lo, a). \<lparr>date = d, hr_latitude = la, hr_longitude = lo, hr_aqi = a\<rparr>)
       (zip lat (zip lon aqi))"

text \<open>The loop over the days; the generator's state runs through it.\<close>

fun week_frames ::
  "'s np_random \<Rightarrow> real list \<Rightarrow> real list \<Rightarrow> int list \<Rightarrow> 's \<Rightarrow> hist_row list list" where
  "week_frames R lat lon [] s = []"
| "week_frames R lat lon (d # days) s =
     (case np_normal R 70 25 (length lat) s of
        (aqi, s') \<Rightarrow>
          day_frame d lat lon (map (\<lambda>x. np_clip x 10 300) aqi)
            # week_frames R lat lon days s')"

function fetch_past_week_data :: "'s np_random \<Rightarrow> bool \<Rightarrow> bool \<Rightarrow> int \<Rightarrow> hist_row list" where
  "fetch_past_week_data R use_mock force_refresh today =
     (if use_mock then
        (let s = np_seed R 42;
             days = date_range (today - 7) today;
             (lat, s) = np_uniform R 25 49 700 s;
             (lon, s) = np_uniform R (-124) (-67) 700 s
         in concat (week_frames R lat lon days s))
      else fetch_past_week_data R True False today)"
  by pat_completeness auto
termination
  by (relation "measure (\<lambda>(R, use_mock, force_refresh, today). if use_mock then 0 else 1)") auto

declare fetch_past_week_data.simps [simp del]

text \<open>
  A \<open>LinearRegression\<close> object: unfitted, or fitted with its coefficients and
  intercept.  The least-squares solver belongs to the regression library and is a
  parameter \<open>fit\<close> of the training function.
\<close>

datatype linreg = Unfitted | Fitted "real list" real

type_synonym solver = "real list list \<Rightarrow> real list \<Rightarrow> real list \<times> real"

definition loc :: "hist_row \<Rightarrow> real \<times> real" where
  "loc r = (hr_latitude r, hr_longitude r)"

text \<open>
  \<open>df.groupby(["latitude", "longitude"])\<close>: the groups in the order of their sorted keys,
  each with its rows in the order of the table.
\<close>

definition group_keys :: "hist_row list \<Rightarrow> (real \<times> real) list" where
  "group_keys df = sort (remdups (map loc df))"

definition groupby_loc :: "hist_row list \<Rightarrow> hist_row list list" where
  "groupby_loc df = map (\<lambda>k. filter (\<lambda>r. loc r = k) df) (group_keys df)"

text \<open>\<open>Series.shift(k)\<close>: \<open>k\<close> missing values in front, the last \<open>k\<close> values dropped.\<close>

definition shift :: "nat \<Rightarrow> real list \<Rightarrow> real option list" where
  "shift k xs = take (length xs) (replicate k None @ map Some xs)"

text \<open>
  \<open>group.sort_values("date")\<close> is the library's sort with its default algorithm, which is
  not stable: the order it gives to rows of one date is the library's own.  The sort is
  a parameter \<open>sv\<close> of the training function; its contract is that it returns the rows
  it is given, in the order of their dates.
\<close>

type_synonym sorter = "hist_row list \<Rightarrow> hist_row list"

definition sorts_by_date :: "sorter \<Rightarrow> bool" where
  "sorts_by_date sv = (\<forall>g. mset (sv g) = mset g \<and> sorted (map date (sv g)))"

text \<open>\<open>make_features\<close>: the group sorted by date, with the three lag columns.\<close>

type_synonym lag_row = "hist_row \<times> real option \<times> real option \<times> real option"

definition make_features :: "sorter \<Rightarrow> hist_row list \<Rightarrow> lag_row list" where
  "make_features sv group0 =
     (let group = sv group0;
          a = map hr_aqi group
      in zip group (zip (shift 1 a) (zip (shift 2 a) (shift 3 a))))"

text \<open>\<open>dropna()\<close>: the rows with all three lags present, as (features, target) pairs.\<close>

fun complete_row :: "lag_row \<Rightarrow> (real list \<times> real) option" where
  "complete_row (r, Some l1, Some l2, Some l3) = Some ([l1, l2, l3], hr_aqi r)"
| "complete_row _ = None"

definition dropna :: "lag_row list \<Rightarrow> (real list \<times> real) list" where
  "dropna rows = List.map_filter complete_row rows"

definition lagged :: "sorter \<Rightarrow> hist_row list \<Rightarrow> (real list \<times> real) list" where
  "lagged sv df = dropna (concat (map (make_features sv) (groupby_loc df)))"

definition train_weekly_predictor ::
  "sorter \<Rightarrow> solver \<Rightarrow> hist_row list option \<Rightarrow> linreg" where
  "train_weekly_predictor sv fit df_week =
     (case df_week of
        None \<Rightarrow> Unfitted
      | Some df \<Rightarrow>
          if length df < 100 then Unfitted
          else
            (let grouped = lagged sv df in
             if length grouped < 50 then Unfitted
             else
               (let X = map fst grouped; y = map snd grouped
                in case fit X y of (coef, intercept) \<Rightarrow> Fitted coef intercept)))"

text \<open>
  \<open>model.predict(X)\<close> of the regression library: an unfitted estimator raises
  \<open>NotFittedError\<close>; an empty matrix, or rows that do not have one entry for each
  coefficient, raise \<open>ValueError\<close>.
\<close>

definition linreg_predict :: "linreg \<Rightarrow> real list list \<Rightarrow> exn + real list" where
  "linreg_predict model X =
     (case model of
        Unfitted \<Rightarrow> Inl NotFittedError
      | Fitted coef intercept \<Rightarrow>
          if X = [] then Inl ValueError
          else if \<not> list_all (\<lambda>x. length x = length coef) X then Inl ValueError
          else Inr (map (\<lambda>x. intercept + sum_list (map2 (*) coef x)) X))"

text \<open>\<open>groupby(...).tail(n)\<close>: the rows that are among the last \<open>n\<close> of their group.\<close>

fun groupby_tail :: "nat \<Rightarrow> hist_row list \<Rightarrow> hist_row list" where
  "groupby_tail n [] = []"
| "groupby_tail n (r # rs) =
     (if length (filter (\<lambda>q. loc q = loc r) rs) < n
      then r # groupby_tail n rs else groupby_tail n rs)"

text \<open>The synthetic predictions of the fallback path.\<close>

definition mock_predictions :: "'s np_random \<Rightarrow> pred_row list" where
  "mock_predictions R =
     (let s = np_seed R 10;
          (lats, s) = np_uniform R 25 49 3000 s;
          (lons, s) = np_uniform R (-124) (-67) 3000 s;
          (aqi, s) = np_normal R 75 20 3000 s;
          aqi = map (\<lambda>x. np_clip x 10 300) aqi
      in map (\<lambda>(la, lo, a). \<lparr>pr_latitude = la, pr_longitude = lo, aqi_pred = a\<rparr>)
           (zip lats (zip lons aqi)))"

definition predict_tomorrow ::
  "'s np_random \<Rightarrow> hist_row list option \<Rightarrow> linreg option \<Rightarrow> exn + pred_row list" where
  "predict_tomorrow R df_week model =
     (case (model, df_week) of
        (Some mdl, Some df) \<Rightarrow>
          if length df < 50 then Inr (mock_predictions R)
          else
            (let latest = groupby_tail 3 df;
                 pivot = map (\<lambda>k. (k, map hr_aqi (filter (\<lambda>r. loc r = k) latest)))
                           (group_keys latest);
                 pivot = filter (\<lambda>(k, a). length a = 3) pivot;
                 X = map (\<lambda>(k, a). [a ! (length a - 1), a ! (length a - 2), a ! (length a - 3)])
                       pivot
             in case linreg_predict mdl X of
                  Inl e \<Rightarrow> Inl e
                | Inr p \<Rightarrow>
                    Inr (map (\<lambda>((k, a), v).
                           \<lparr>pr_latitude = fst k, pr_longitude = snd k,
                            aqi_pred = np_clip v 10 300\<rparr>) (zip pivot p)))
      | _ \<Rightarrow> Inr (mock_predictions R))"

section \<open>fetch_aqi.py\<close>

text \<open>
  What \<open>r.json()\<close> can return.  Numbers are the reals they denote, and an object is its
  list of members (the parser has already resolved repeated names).
\<close>

datatype json =
    JNull
  | JBool bool
  | JNum real
  | JStr string
  | JArr "json list"
  | JObj "(string \<times> json) list"

text \<open>
  The outcome of one \<open>requests.get\<close>: an exception (timeout, connection error), or a
  response with its status code and its body, \<open>None\<close> when the body does not parse.
\<close>

datatype http_result = RequestFailed | Response nat "json option"

fun truthy :: "json \<Rightarrow> bool" where
  "truthy JNull = False"
| "truthy (JBool b) = b"
| "truthy (JNum x) = (x \<noteq> 0)"
| "truthy (JStr s) = (s \<noteq> [])"
| "truthy (JArr xs) = (xs \<noteq> [])"
| "truthy (JObj kvs) = (kvs \<noteq> [])"

text \<open>\<open>len(data)\<close>: \<open>None\<close> stands for the \<open>TypeError\<close> on a value without a length.\<close>

fun py_len :: "json \<Rightarrow> nat option" where
  "py_len (JStr s) = Some (length s)"
| "py_len (JArr xs) = Some (length xs)"
| "py_len (JObj kvs) = Some (length kvs)"
| "py_len _ = None"

text \<open>
  \<open>_fetch_point\<close>: the data of a 200 response when it is truthy, and the empty list in
  every other case; the \<open>except\<close> clause covers the request, the parse and the \<open>len\<close> of
  the progress message.
\<close>

definition fetch_point :: "http_result \<Rightarrow> json" where
  "fetch_point r =
     (case r of
        RequestFailed \<Rightarrow> JArr []
      | Response status body \<Rightarrow>
          if status = 200 then
            (case body of
               None \<Rightarrow> JArr []
             | Some data \<Rightarrow>
                 if truthy data then
                   (case py_len data of None \<Rightarrow> JArr [] | Some n \<Rightarrow> data)
                 else JArr [])
          else JArr [])"

text \<open>
  Iterating a value, as \<open>list.extend\<close> does: a list gives its items, an object its names,
  a string its characters; anything else raises \<open>TypeError\<close>.
\<close>

fun py_iter :: "json \<Rightarrow> exn + json list" where
  "py_iter (JArr xs) = Inr xs"
| "py_iter (JObj kvs) = Inr (map (\<lambda>kv. JStr (fst kv)) kvs)"
| "py_iter (JStr s) = Inr (map (\<lambda>c. JStr [c]) s)"
| "py_iter _ = Inl TypeError"

fun extend_all :: "json list \<Rightarrow> json list \<Rightarrow> exn + json list" where
  "extend_all all_data [] = Inr all_data"
| "extend_all all_data (d # ds) =
     (case py_iter d of Inl e \<Rightarrow> Inl e | Inr xs \<Rightarrow> extend_all (all_data @ xs) ds)"

text \<open>A table of the point fetcher: a list of rows, each a dictionary in column order.\<close>

type_synonym row = "(string \<times> json) list"

definition py_get :: "row \<Rightarrow> string \<Rightarrow> json" where
  "py_get d k = (case map_of d k of Some v \<Rightarrow> v | None \<Rightarrow> JNull)"

text \<open>
  The body of the normalisation loop.  Only a dictionary has \<open>get\<close>; on any other item
  the \<open>AttributeError\<close> is caught and the item skipped (\<open>None\<close>).
\<close>

fun normalize :: "json \<Rightarrow> row option" where
  "normalize (JObj d) =
     Some [(''latitude'', py_get d ''Latitude''),
           (''longitude'', py_get d ''Longitude''),
           (''parameter'',
              if truthy (py_get d ''ParameterName'') then py_get d ''ParameterName''
              else py_get d ''Parameter''),
           (''aqi'', py_get d ''AQI''),
           (''category'',
              case py_get d ''Category'' of JObj c \<Rightarrow> py_get c ''Name'' | v \<Rightarrow> v),
           (''unit'', py_get d ''Unit''),
           (''reportingArea'', py_get d ''ReportingArea''),
           (''stateCode'', py_get d ''StateCode''),
           (''utc'', py_get d ''DateObserved'')]"
| "normalize _ = None"

definition columns :: "row list \<Rightarrow> string list" where
  "columns df = (case df of [] \<Rightarrow> [] | r # _ \<Rightarrow> map fst r)"

text \<open>
  \<open>dropna(subset=...)\<close>: \<open>KeyError\<close> when a column of the subset is not in the table (a
  table built from no rows has no columns), else the rows without a missing value in the
  subset.
\<close>

definition dropna_subset :: "string list \<Rightarrow> row list \<Rightarrow> exn + row list" where
  "dropna_subset cols df =
     (if \<not> list_all (\<lambda>c. c \<in> set (columns df)) cols then Inl KeyError
      else Inr (filter (\<lambda>r. list_all (\<lambda>c. py_get r c \<noteq> JNull) cols) df))"

text \<open>
  \<open>drop_duplicates(subset=...)\<close> keeps the first row of every key.  Keys are compared as
  Python compares them, so \<open>True\<close> and \<open>1\<close> are one key; a list or a dictionary in a key
  column cannot be hashed and raises \<open>TypeError\<close>.
\<close>

fun py_key :: "json \<Rightarrow> json" where
  "py_key (JBool b) = JNum (if b then 1 else 0)"
| "py_key v = v"

fun hashable :: "json \<Rightarrow> bool" where
  "hashable (JArr xs) = False"
| "hashable (JObj kvs) = False"
| "hashable _ = True"

definition row_key :: "string list \<Rightarrow> row \<Rightarrow> json list" where
  "row_key cols r = map (\<lambda>c. py_key (py_get r c)) cols"

fun keep_first :: "('a \<Rightarrow> 'k) \<Rightarrow> 'k list \<Rightarrow> 'a list \<Rightarrow> 'a list" where
  "keep_first key seen [] = []"
| "keep_first key seen (r # rs) =
     (if key r \<in> set seen then keep_first key seen rs
      else r # keep_first key (key r # seen) rs)"

definition drop_duplicates :: "string list \<Rightarrow> row list \<Rightarrow> exn + row list" where
  "drop_duplicates cols df =
     (if df = [] then Inr []
      else if \<not> list_all (\<lambda>r. list_all (\<lambda>c. hashable (py_get r c)) cols) df
      then Inl TypeError
      else Inr (keep_first (row_key cols) [] df))"

definition color_map :: "(string \<times> string) list" where
  "color_map =
     [(''Good'', ''green''),
      (''Moderate'', ''yellow''),
      (''Unhealthy for Sensitive Groups'', ''orange''),
      (''Unhealthy'', ''red''),
      (''Very Unhealthy'', ''purple''),
      (''Hazardous'', ''maroon'')]"

text \<open>
  \<open>df["category"].map(color_map).fillna("gray")\<close> on one cell: a category outside the
  table maps to a missing value and then to gray; a list or dictionary cannot be looked
  up and raises \<open>TypeError\<close>.
\<close>

fun category_color :: "json \<Rightarrow> exn + json" where
  "category_color (JStr s) =
     Inr (case map_of color_map s of Some c \<Rightarrow> JStr c | None \<Rightarrow> JStr ''gray'')"
| "category_color (JArr xs) = Inl TypeError"
| "category_color (JObj kvs) = Inl TypeError"
| "category_color _ = Inr (JStr ''gray'')"

fun add_colors :: "row list \<Rightarrow> exn + row list" where
  "add_colors [] = Inr []"
| "add_colors (r # rs) =
     (case category_color (py_get r ''category'') of
        Inl e \<Rightarrow> Inl e
      | Inr c \<Rightarrow>
          (case add_colors rs of
             Inl e \<Rightarrow> Inl e
           | Inr rs' \<Rightarrow> Inr ((r @ [(''color'', c), (''region'', JStr ''USA'')]) # rs')))"

text \<open>
  \<open>_mock_aqi_data\<close>.  One pass of the loop draws the category first and then the fields
  in the order of the dictionary literal; the colour is a dictionary lookup, which raises
  \<open>KeyError\<close> on a category outside the three.
\<close>

definition mock_colors :: "(string \<times> string) list" where
  "mock_colors = [(''Good'', ''green''), (''Moderate'', ''yellow''), (''Unhealthy'', ''red'')]"

definition mock_row :: "'s py_random \<Rightarrow> 's \<Rightarrow> exn + (row \<times> 's)" where
  "mock_row R s =
     (let (category, s) = rnd_choice R [''Good'', ''Moderate'', ''Unhealthy''] s;
          (lat, s) = rnd_uniform R 24 49 s;
          (lon, s) = rnd_uniform R (-125) (-67) s;
          (parameter, s) = rnd_choice R [''PM2.5'', ''NO2''] s;
          (aqi, s) = rnd_randint R 5 150 s
      in case map_of mock_colors category of
           None \<Rightarrow> Inl KeyError
         | Some color \<Rightarrow>
             Inr ([(''latitude'', JNum lat),
                   (''longitude'', JNum lon),
                   (''parameter'', JStr parameter),
                   (''unit'', JStr ''UG/M3''),
                   (''aqi'', JNum (of_int aqi)),
                   (''category'', JStr category),
                   (''color'', JStr color),
                   (''region'', JStr ''USA''),
                   (''utc'', JStr ''2025-10-04T12:00'')], s))"

fun mock_rows :: "'s py_random \<Rightarrow> nat \<Rightarrow> 's \<Rightarrow> exn + row list" where
  "mock_rows R 0 s = Inr []"
| "mock_rows R (Suc n) s =
     (case mock_row R s of
        Inl e \<Rightarrow> Inl e
      | Inr (r, s') \<Rightarrow> (case mock_rows R n s' of Inl e \<Rightarrow> Inl e | Inr rs \<Rightarrow> Inr (r # rs)))"

definition mock_aqi_data :: "'s py_random \<Rightarrow> nat \<Rightarrow> exn + row list" where
  "mock_aqi_data R n = mock_rows R n (rnd_seed R 42)"

text \<open>
  \<open>load_aqi_data\<close>.  \<open>completed\<close> lists the outcomes of the requests, one for each
  coordinate, in the order in which they complete.
\<close>

definition load_aqi_data :: "'s py_random \<Rightarrow> bool \<Rightarrow> http_result list \<Rightarrow> exn + row list" where
  "load_aqi_data R use_mock completed =
     (if use_mock then mock_aqi_data R 1000
      else
        (case extend_all [] (map fetch_point completed) of
           Inl e \<Rightarrow> Inl e
         | Inr all_data \<Rightarrow>
             if all_data = [] \<or> length all_data < 10 then mock_aqi_data R 1000
             else
               (let rows = List.map_filter normalize all_data in
                case dropna_subset [''latitude'', ''longitude'', ''aqi''] rows of
                  Inl e \<Rightarrow> Inl e
                | Inr df \<Rightarrow>
                    (case drop_duplicates [''latitude'', ''longitude'', ''parameter''] df of
                       Inl e \<Rightarrow> Inl e
                     | Inr df \<Rightarrow> add_colors df))))"

text \<open>
  The list \<open>all_data\<close> of a run: the items of every request's data, in completion order.
\<close>

definition fetched :: "http_result list \<Rightarrow> json list" where
  "fetched completed =
     concat (map (\<lambda>r. case py_iter (fetch_point r) of Inl e \<Rightarrow> [] | Inr xs \<Rightarrow> xs) completed)"

text \<open>
  The records the specification calls usable: the fetched items that normalise to a row
  and miss none of latitude, longitude and AQI.
\<close>

definition usable :: "json list \<Rightarrow> row list" where
  "usable all_data =
     filter (\<lambda>r. list_all (\<lambda>c. py_get r c \<noteq> JNull) [''latitude'', ''longitude'', ''aqi''])
       (List.map_filter normalize all_data)"

section \<open>main.py\<close>

text \<open>
  The names each module of the repository binds at top level: its imports and its
  functions.  \<open>from m import n\<close> raises \<open>ImportError\<close> when \<open>m\<close> does not bind \<open>n\<close>.
\<close>

definition module_names :: "string \<Rightarrow> string list" where
  "module_names m =
     (if m = ''fetch_aod'' then [''np'', ''pd'', ''load_aod_data'', ''_mock_aod_data'']
      else if m = ''predict_aqi'' then
        [''datetime'', ''np'', ''pd'', ''LinearRegression'', ''train_test_split'', ''r2_score'',
         ''fetch_past_week_data'', ''train_predictor'', ''train_weekly_predictor'',
         ''predict_tomorrow'']
      else if m = ''map_builder'' then [''folium'', ''HeatMap'', ''get_aqi_color'', ''make_map'']
      else if m = ''fetch_aqi'' then
        [''concurrent'', ''requests'', ''pd'', ''random'', ''API_KEY'', ''URL'', ''COORDS'',
         ''_fetch_point'', ''load_aqi_data'', ''_mock_aqi_data'']
      else [])"

definition import_from :: "string \<Rightarrow> string \<Rightarrow> exn + unit" where
  "import_from m n = (if n \<in> set (module_names m) then Inr () else Inl (ImportError m n))"

fun import_all :: "(string \<times> string) list \<Rightarrow> exn + unit" where
  "import_all [] = Inr ()"
| "import_all ((m, n) # rest) =
     (case import_from m n of Inl e \<Rightarrow> Inl e | Inr u \<Rightarrow> import_all rest)"

text \<open>The \<open>from ... import\<close> statements at the top of \<open>main.py\<close>, in order.\<close>

definition main_imports :: "(string \<times> string) list" where
  "main_imports =
     [(''fetch_aod'', ''load_aod_data''),
      (''predict_aqi'', ''fetch_past_week_data''),
      (''predict_aqi'', ''train_predictor''),
      (''predict_aqi'', ''predict_tomorrow''),
      (''map_builder'', ''build_map'')]"

text \<open>
  The stages \<open>main\<close> calls are parameters of its model: what each call does, as a result
  or an exception.  \<open>'a\<close>, \<open>'b\<close> and \<open>'c\<close> are the rows of the historical, aerosol and
  prediction tables and \<open>'m\<close> is what training returns.
\<close>

record ('a, 'b, 'c, 'm) stages =
  st_fetch_past_week_data :: "bool \<Rightarrow> exn + 'a list option"
  st_mock_weekly_data :: "exn + 'a list"
  st_load_aod_data :: "exn + 'b list"
  st_train_predictor :: "'a list \<Rightarrow> exn + 'm option"
  st_predict_tomorrow :: "'m \<Rightarrow> 'a list \<Rightarrow> exn + 'c list"
  st_build_map :: "'a list \<Rightarrow> 'b list option \<Rightarrow> 'c list option \<Rightarrow> exn + unit"

text \<open>What \<open>main\<close> prints.\<close>

datatype message =
    Loading
  | NoAqiData
  | AodFailed exn
  | Training
  | TrainingFailed exn
  | PredictionFailed exn
  | Summary nat nat nat
  | Building
  | MapFailed exn
  | Done

definition safe_len :: "'a list option \<Rightarrow> nat" where
  "safe_len df = (case df of None \<Rightarrow> 0 | Some rows \<Rightarrow> length rows)"

text \<open>
  Step 1 of \<open>main\<close>: the historical fetch is called outside any \<open>try\<close>; a \<open>None\<close> or empty
  result is replaced by \<open>_mock_weekly_data()\<close>, imported from \<open>predict_aqi\<close> on the spot.
\<close>

definition step1 :: "('a, 'b, 'c, 'm) stages \<Rightarrow> bool \<Rightarrow> message list \<times> (exn + 'a list)" where
  "step1 st force_refresh =
     (case st_fetch_past_week_data st force_refresh of
        Inl e \<Rightarrow> ([Loading], Inl e)
      | Inr None \<Rightarrow>
          (case import_from ''predict_aqi'' ''_mock_weekly_data'' of
             Inl e \<Rightarrow> ([Loading, NoAqiData], Inl e)
           | Inr u \<Rightarrow> ([Loading, NoAqiData], st_mock_weekly_data st))
      | Inr (Some df) \<Rightarrow>
          if df = [] then
            (case import_from ''predict_aqi'' ''_mock_weekly_data'' of
               Inl e \<Rightarrow> ([Loading, NoAqiData], Inl e)
             | Inr u \<Rightarrow> ([Loading, NoAqiData], st_mock_weekly_data st))
          else ([Loading], Inr df))"

text \<open>
  Steps 2 to 6.  The result is the output so far and either the exception that leaves
  \<open>main\<close> or its return.
\<close>

definition steps2to6 ::
  "('a, 'b, 'c, 'm) stages \<Rightarrow> 'a list \<Rightarrow> message list \<times> (exn + unit)" where
  "steps2to6 st df_aqi =
     (let (out2, df_aod) =
            (case st_load_aod_data st of
               Inl e \<Rightarrow> ([AodFailed e], None)
             | Inr df \<Rightarrow> ([], Some df));
          (out3, model) =
            (case st_train_predictor st df_aqi of
               Inl e \<Rightarrow> ([Training, TrainingFailed e], None)
             | Inr mdl \<Rightarrow> ([Training], mdl));
          (out4, df_pred) =
            (case model of
               None \<Rightarrow> ([], None)
             | Some mdl \<Rightarrow>
                 (case st_predict_tomorrow st mdl df_aqi of
                    Inl e \<Rightarrow> ([PredictionFailed e], None)
                  | Inr df \<Rightarrow> ([], Some df)));
          out5 = [Summary (length df_aqi) (safe_len df_aod) (safe_len df_pred), Building];
          out = out2 @ out3 @ out4 @ out5
      in case st_build_map st df_aqi df_aod df_pred of
           Inl e \<Rightarrow> (out @ [MapFailed e], Inr ())
         | Inr u \<Rightarrow> (out @ [Done], Inr ()))"

definition main :: "('a, 'b, 'c, 'm) stages \<Rightarrow> bool \<Rightarrow> message list \<times> (exn + unit)" where
  "main st force_refresh =
     (case step1 st force_refresh of
        (out1, Inl e) \<Rightarrow> (out1, Inl e)
      | (out1, Inr df_aqi) \<Rightarrow>
          (case steps2to6 st df_aqi of (out, r) \<Rightarrow> (out1 @ out, r)))"

text \<open>
  Running \<open>main.py\<close> as a script: the module's imports first, then \<open>main()\<close>.  The exit
  status is 0 when the script runs to its end and 1 when an exception leaves it.
\<close>

definition run_main_py :: "('a, 'b, 'c, 'm) stages \<Rightarrow> bool \<Rightarrow> message list \<times> (exn + unit)" where
  "run_main_py st force_refresh =
     (case import_all main_imports of
        Inl e \<Rightarrow> ([], Inl e)
      | Inr u \<Rightarrow> main st force_refresh)"

definition exit_status :: "message list \<times> (exn + unit) \<Rightarrow> nat" where
  "exit_status r = (case snd r of Inl e \<Rightarrow> 1 | Inr u \<Rightarrow> 0)"

section \<open>Concrete inputs\<close>

text \<open>The inputs at which the theorems below are instantiated.\<close>

definition five_aod_rows :: "aod_row list" where
  "five_aod_rows =
     [\<lparr>latitude = 30, longitude = -100, aod = 0.1\<rparr>,
      \<lparr>latitude = 31, longitude = -101, aod = 0.2\<rparr>,
      \<lparr>latitude = 32, longitude = -102, aod = 0.3\<rparr>,
      \<lparr>latitude = 33, longitude = -103, aod = 0.4\<rparr>,
      \<lparr>latitude = 34, longitude = -104, aod = 0.5\<rparr>]"

definition week50 :: "hist_row list" where
  "week50 = map (\<lambda>i. \<lparr>date = int i, hr_latitude = 30, hr_longitude = -100, hr_aqi = real i\<rparr>) [0..<50]"

definition week60 :: "hist_row list" where
  "week60 =
     concat (map (\<lambda>d. map (\<lambda>i. \<lparr>date = d, hr_latitude = 30 + real i, hr_longitude = -100,
                                   hr_aqi = 50\<rparr>) [0..<20]) [0, 1, 2])"

definition week100 :: "hist_row list" where
  "week100 = map (\<lambda>i. \<lparr>date = int i, hr_latitude = 30, hr_longitude = -100, hr_aqi = real i\<rparr>) [0..<100]"

definition scattered100 :: "hist_row list" where
  "scattered100 = map (\<lambda>i. \<lparr>date = 0, hr_latitude = real i, hr_longitude = -100, hr_aqi = 50\<rparr>) [0..<100]"

text \<open>
  A solver that returns the first training sample as it is: the model it gives to
  \<open>Fitted\<close> shows what the training function passed to it.
\<close>

definition first_sample_fit :: solver where
  "first_sample_fit X y =
     (case X of [] \<Rightarrow> [] | x # xs \<Rightarrow> x, case y of [] \<Rightarrow> 0 | v # vs \<Rightarrow> v)"

definition complete_record :: json where
  "complete_record =
     JObj [(''Latitude'', JNum 47.61), (''Longitude'', JNum (-122.33)),
           (''ParameterName'', JStr ''PM2.5''), (''AQI'', JNum 42),
           (''Category'', JObj [(''Number'', JNum 1), (''Name'', JStr ''Good'')])]"

definition record_without_aqi :: json where
  "record_without_aqi =
     JObj [(''Latitude'', JNum 34.05), (''Longitude'', JNum (-118.24)),
           (''ParameterName'', JStr ''O3''), (''AQI'', JNull)]"

definition ten_records :: "http_result list" where
  "ten_records =
     Response 200 (Some (JArr (complete_record # replicate 9 record_without_aqi)))
       # replicate 24 RequestFailed"

section \<open>Properties of the map renderer\<close>

lemma make_map_layers:
  "fm_layers (make_map df_aqi df_aod df_pred show_pred) =
     (if \<not> absent df_aqi \<and> show_pred \<in> set [''both'', ''current'']
      then [MarkerGroup ''Current AQI Levels'' (map aqi_marker (the df_aqi))] else [])
     @ (if \<not> absent df_aod then [HeatGroup ''AOD (MERRA-2)'' (aod_heat (the df_aod))] else [])
     @ (if \<not> absent df_pred \<and> show_pred \<in> set [''both'', ''predicted'']
        then [MarkerGroup ''Predicted AQI (Tomorrow)'' (map pred_marker (the df_pred))] else [])"
  by (cases df_aqi; cases df_aod; cases df_pred)
     (simp_all add: make_map_def absent_def add_to_def Let_def)

lemma make_map_layer_names:
  "layer_names (make_map df_aqi df_aod df_pred show_pred) =
     (if \<not> absent df_aqi \<and> show_pred \<in> set [''both'', ''current'']
      then [''Current AQI Levels''] else [])
     @ (if \<not> absent df_aod then [''AOD (MERRA-2)''] else [])
     @ (if \<not> absent df_pred \<and> show_pred \<in> set [''both'', ''predicted'']
        then [''Predicted AQI (Tomorrow)''] else [])"
  unfolding layer_names_def make_map_layers by simp


text \<open>
  Claim C9.  Called with no observations, an aerosol table of five rows and no
  predictions, \<open>make_map\<close> returns a map whose only layer is the aerosol heat map.  More
  generally an input that is absent (\<open>None\<close>) or empty has no layer in the result, for
  every other argument; \<open>make_map\<close> has no failing branch, its result is always a map.
\<close>

theorem make_map_omits_absent_inputs:
  "(length aod_rows = 5 \<longrightarrow>
      fm_layers (make_map None (Some aod_rows) None show_pred)
        = [HeatGroup ''AOD (MERRA-2)'' (aod_heat aod_rows)])
   \<and> (absent df_aqi \<longrightarrow>
        ''Current AQI Levels'' \<notin> set (layer_names (make_map df_aqi df_aod df_pred sel)))
   \<and> (absent df_aod \<longrightarrow>
        ''AOD (MERRA-2)'' \<notin> set (layer_names (make_map df_aqi df_aod df_pred sel)))
   \<and> (absent df_pred \<longrightarrow>
        ''Predicted AQI (Tomorrow)'' \<notin> set (layer_names (make_map df_aqi df_aod df_pred sel)))"
proof (intro conjI impI)
  assume "length aod_rows = 5"
  then have "\<not> absent (Some aod_rows)"
    by (auto simp: absent_def)
  then show "fm_layers (make_map None (Some aod_rows) None show_pred)
               = [HeatGroup ''AOD (MERRA-2)'' (aod_heat aod_rows)]"
    by (simp add: make_map_layers absent_def)
next
  assume "absent df_aqi"
  then show "''Current AQI Levels'' \<notin> set (layer_names (make_map df_aqi df_aod df_pred sel))"
    by (simp add: make_map_layer_names)
next
  assume "absent df_aod"
  then show "''AOD (MERRA-2)'' \<notin> set (layer_names (make_map df_aqi df_aod df_pred sel))"
    by (simp add: make_map_layer_names)
next
  assume "absent df_pred"
  then show "''Predicted AQI (Tomorrow)'' \<notin> set (layer_names (make_map df_aqi df_aod df_pred sel))"
    by (simp add: make_map_layer_names)
qed

theorem make_map_omits_absent_inputs_witness:
  "length five_aod_rows = 5
   \<and> fm_layers (make_map None (Some five_aod_rows) None ''both'')
       = [HeatGroup ''AOD (MERRA-2)'' (aod_heat five_aod_rows)]
   \<and> absent (None :: obs_point list option)
   \<and> ''Current AQI Levels'' \<notin> set (layer_names (make_map None (Some five_aod_rows) (Some []) ''both''))
   \<and> absent (Some [] :: pred_row list option)
   \<and> ''Predicted AQI (Tomorrow)''
        \<notin> set (layer_names (make_map None (Some five_aod_rows) (Some []) ''both''))
   \<and> absent (Some [] :: aod_row list option)
   \<and> ''AOD (MERRA-2)'' \<notin> set (layer_names (make_map None (Some []) None ''current''))"
proof -
  have five: "length five_aod_rows = 5"
    by (simp add: five_aod_rows_def)
  have a1: "absent (None :: obs_point list option)"
    and a2: "absent (Some [] :: pred_row list option)"
    and a3: "absent (Some [] :: aod_row list option)"
    by (simp_all add: absent_def)
  from five a1 a2 a3
    make_map_omits_absent_inputs
      [of five_aod_rows "''both''" None "Some five_aod_rows" "Some []" "''both''"]
    make_map_omits_absent_inputs
      [of five_aod_rows "''both''" None "Some []" None "''current''"]
  show ?thesis by simp
qed

text \<open>
  Claim C10.  The aerosol layer of the result does not depend on the selector: two
  calls that differ in \<open>show_pred\<close> only have the same aerosol layers, and the layer is
  there exactly when the aerosol table is neither \<open>None\<close> nor empty.
\<close>

theorem make_map_aod_layer_independent_of_selector:
  "aod_layers (make_map df_aqi df_aod df_pred s1) = aod_layers (make_map df_aqi df_aod df_pred s2)
   \<and> (aod_layers (make_map df_aqi df_aod df_pred s1) \<noteq> []) = (\<not> absent df_aod)"
  by (simp add: aod_layers_def make_map_layers)

section \<open>Properties of the generators\<close>

lemma draws_length: "draws f n s = (xs, s') \<Longrightarrow> length xs = n"
  by (induction n arbitrary: s xs s') (auto split: prod.splits)

lemma length_draws: "length (fst (draws f n s)) = n"
  by (cases "draws f n s") (simp add: draws_length)

lemma np_uniform_length: "length (fst (np_uniform R lo hi n s)) = n"
  by (cases "draws (np_random_sample R) n s") (simp add: np_uniform_def draws_length)

lemma np_normal_length: "length (fst (np_normal R mu sd n s)) = n"
  by (cases "draws (np_standard_normal R) n s") (simp add: np_normal_def draws_length)

lemma draws_unit:
  "unit_samples R \<Longrightarrow> u \<in> set (fst (draws (np_random_sample R) n s)) \<Longrightarrow> 0 \<le> u \<and> u < 1"
proof (induction n arbitrary: s)
  case 0
  then show ?case by simp
next
  case (Suc n)
  obtain x s' where f: "np_random_sample R s = (x, s')"
    by (cases "np_random_sample R s")
  obtain xs s'' where d: "draws (np_random_sample R) n s' = (xs, s'')"
    by (cases "draws (np_random_sample R) n s'")
  from Suc.prems(2) f d have "u = x \<or> u \<in> set xs"
    by simp
  then show ?case
  proof
    assume "u = x"
    with Suc.prems(1) f show ?thesis
      unfolding unit_samples_def by (metis fst_conv)
  next
    assume "u \<in> set xs"
    with Suc.IH [OF Suc.prems(1), of s'] d show ?thesis
      by simp
  qed
qed

lemma np_uniform_range:
  assumes "unit_samples R" and "lo \<le> hi"
    and "x \<in> set (fst (np_uniform R lo hi n s))"
  shows "lo \<le> x \<and> x \<le> hi"
proof -
  obtain us s' where d: "draws (np_random_sample R) n s = (us, s')"
    by (cases "draws (np_random_sample R) n s")
  with assms(3) obtain u where u: "u \<in> set us" and x: "x = lo + (hi - lo) * u"
    by (auto simp: np_uniform_def)
  from draws_unit [OF assms(1), of u n s] d u have b: "0 \<le> u" "u < 1"
    by simp_all
  from assms(2) have h: "0 \<le> hi - lo" by simp
  have "0 \<le> (hi - lo) * u"
    using h b(1) by simp
  moreover have "(hi - lo) * u \<le> (hi - lo) * 1"
    using h b(2) by (intro mult_left_mono) simp_all
  ultimately show ?thesis
    using x by simp
qed

section \<open>Properties of the aerosol loader\<close>

text \<open>
  Claim C5.  Every row \<open>load_aod_data\<close> returns lies in the box
  \<open>24 \<le> latitude \<le> 49.5\<close>, \<open>-125 \<le> longitude \<le> -66.5\<close>, whether the table comes from
  the archive or from the mock: the crop is applied after both.
\<close>

theorem load_aod_data_cropped:
  "\<forall>r \<in> set (load_aod_data R granule).
     24 \<le> latitude r \<and> latitude r \<le> 49.5 \<and> -125 \<le> longitude r \<and> longitude r \<le> -66.5"
  by (simp add: load_aod_data_def)

lemma np_uniform_lengthD: "np_uniform R lo hi n s = (xs, s') \<Longrightarrow> length xs = n"
  using np_uniform_length [of R lo hi n s] by simp

lemma np_normal_lengthD: "np_normal R mu sd n s = (xs, s') \<Longrightarrow> length xs = n"
  using np_normal_length [of R mu sd n s] by simp

lemma np_uniform_rangeD:
  "unit_samples R \<Longrightarrow> np_uniform R lo hi n s = (xs, s') \<Longrightarrow> lo \<le> hi \<Longrightarrow> x \<in> set xs
     \<Longrightarrow> lo \<le> x \<and> x \<le> hi"
  using np_uniform_range [of R lo hi x n s] by simp

theorem load_aod_data_cropped_witness:
  "load_aod_data counter_np (Some ([10, 30], [-100, -50], [1, 2, 3, 4]))
     = [\<lparr>latitude = 30, longitude = -100, aod = 3\<rparr>]
   \<and> (24::real) \<le> 30 \<and> (30::real) \<le> 49.5 \<and> (-125::real) \<le> -100 \<and> (-100::real) \<le> -66.5"
  using load_aod_data_cropped [of counter_np "Some ([10, 30], [-100, -50], [1, 2, 3, 4])"]
  by (simp add: load_aod_data_def aod_frame_def np_repeat_def np_tile_def)

text \<open>
  On the mock path the crop removes nothing when the generator keeps its contract: all
  3000 rows are inside the box already.
\<close>

lemma mock_aod_data_length: "length (mock_aod_data R n) = n"
  by (auto simp: mock_aod_data_def Let_def split: prod.splits dest!: np_uniform_lengthD)

lemma mock_aod_data_in_box:
  assumes "unit_samples R" and "r \<in> set (mock_aod_data R n)"
  shows "24 \<le> latitude r \<and> latitude r \<le> 49.5 \<and> -125 \<le> longitude r \<and> longitude r \<le> -66.5"
proof -
  obtain lat s1 where 1: "np_uniform R 24 49.5 n (np_seed R 1) = (lat, s1)"
    by (cases "np_uniform R 24 49.5 n (np_seed R 1)")
  obtain lon s2 where 2: "np_uniform R (-125) (-66.5) n s1 = (lon, s2)"
    by (cases "np_uniform R (-125) (-66.5) n s1")
  obtain a s3 where 3: "np_uniform R 0 1 n s2 = (a, s3)"
    by (cases "np_uniform R 0 1 n s2")
  have m: "mock_aod_data R n
             = map (\<lambda>(la, lo, v). \<lparr>latitude = la, longitude = lo, aod = v\<rparr>) (zip lat (zip lon a))"
    by (simp only: mock_aod_data_def Let_def 1 2 3 prod.case)
  from assms(2) obtain la lo v where r: "r = \<lparr>latitude = la, longitude = lo, aod = v\<rparr>"
    and z: "(la, lo, v) \<in> set (zip lat (zip lon a))"
    unfolding m by auto
  from z have "la \<in> set lat" "lo \<in> set lon"
    by (auto dest: set_zip_leftD set_zip_rightD)
  then have "24 \<le> la \<and> la \<le> 49.5" "-125 \<le> lo \<and> lo \<le> -66.5"
    using np_uniform_rangeD [OF assms(1) 1, of la] np_uniform_rangeD [OF assms(1) 2, of lo]
    by simp_all
  with r show ?thesis by simp
qed

lemma load_aod_data_mock_keeps_all:
  "unit_samples R \<Longrightarrow> load_aod_data R None = mock_aod_data R 3000"
  unfolding load_aod_data_def using mock_aod_data_in_box [of R _ 3000]
  by (simp add: filter_id_conv)

lemma unit_samples_counter_np: "unit_samples counter_np"
  by (simp add: unit_samples_def counter_np_def)

section \<open>Properties of the historical fetcher\<close>

lemma week_frames_dates:
  "length lat = n \<Longrightarrow> length lon = n \<Longrightarrow>
     map date (concat (week_frames R lat lon days s)) = concat (map (replicate n) days)"
proof (induction days arbitrary: s)
  case Nil
  then show ?case by simp
next
  case (Cons d days)
  obtain aqi s' where a: "np_normal R 70 25 (length lat) s = (aqi, s')"
    by (cases "np_normal R 70 25 (length lat) s")
  then have l: "length aqi = n"
    using np_normal_lengthD [OF a] Cons.prems(1) by simp
  have "map date (day_frame d lat lon (map (\<lambda>x. np_clip x 10 300) aqi)) = replicate n d"
    using Cons.prems l
    by (auto simp: day_frame_def map_replicate_const [symmetric] intro!: nth_equalityI)
  with Cons.IH [OF Cons.prems, of s'] a show ?case
    by simp
qed

lemma week_frames_aqi:
  "r \<in> set (concat (week_frames R lat lon days s)) \<Longrightarrow> 10 \<le> hr_aqi r \<and> hr_aqi r \<le> 300"
proof (induction days arbitrary: s)
  case Nil
  then show ?case by simp
next
  case (Cons d days)
  obtain aqi s' where a: "np_normal R 70 25 (length lat) s = (aqi, s')"
    by (cases "np_normal R 70 25 (length lat) s")
  from Cons.prems a
  have "r \<in> set (day_frame d lat lon (map (\<lambda>x. np_clip x 10 300) aqi))
          \<or> r \<in> set (concat (week_frames R lat lon days s'))"
    by simp
  then show ?case
  proof
    assume "r \<in> set (day_frame d lat lon (map (\<lambda>x. np_clip x 10 300) aqi))"
    then obtain la lo v where "r = \<lparr>date = d, hr_latitude = la, hr_longitude = lo, hr_aqi = v\<rparr>"
      and "v \<in> set (map (\<lambda>x. np_clip x 10 300) aqi)"
      by (auto simp: day_frame_def dest!: set_zip_rightD)
    then show ?thesis
      by (auto simp: np_clip_def)
  next
    assume "r \<in> set (concat (week_frames R lat lon days s'))"
    then show ?thesis by (rule Cons.IH)
  qed
qed

lemma fetch_past_week_data_True:
  "fetch_past_week_data R True force_refresh today =
     (let s = np_seed R 42;
          days = date_range (today - 7) today;
          (lat, s) = np_uniform R 25 49 700 s;
          (lon, s) = np_uniform R (-124) (-67) 700 s
      in concat (week_frames R lat lon days s))"
  by (subst fetch_past_week_data.simps) simp

lemma fetch_past_week_data_False:
  "fetch_past_week_data R False force_refresh today = fetch_past_week_data R True False today"
  by (subst fetch_past_week_data.simps) simp

lemma fetch_past_week_data_ignores_flags:
  "fetch_past_week_data R use_mock force_refresh today = fetch_past_week_data R True False today"
  by (cases use_mock) (simp_all add: fetch_past_week_data_True fetch_past_week_data_False)

text \<open>
  Claim C4 says that \<open>fetch_past_week_data\<close> returns one row for each of 700 locations
  and each of the 7 days up to and including today.  The table it returns has 700 rows
  for each of the eight days from \<open>today - 7\<close> to \<open>today\<close>, 5600 rows in all, for either
  value of \<open>use_mock\<close>: \<open>pd.date_range\<close> includes both of its ends.  Seven days would be
  4900 rows.
\<close>

theorem fetch_past_week_data_eight_days:
  "map date (fetch_past_week_data R use_mock force_refresh today)
     = concat (map (replicate 700) [today - 7, today - 6, today - 5, today - 4,
                                    today - 3, today - 2, today - 1, today])
   \<and> length (fetch_past_week_data R use_mock force_refresh today) = 5600"
proof -
  obtain lat s1 where 1: "np_uniform R 25 49 700 (np_seed R 42) = (lat, s1)"
    by (cases "np_uniform R 25 49 700 (np_seed R 42)")
  obtain lon s2 where 2: "np_uniform R (-124) (-67) 700 s1 = (lon, s2)"
    by (cases "np_uniform R (-124) (-67) 700 s1")
  have l: "length lat = 700" "length lon = 700"
    using np_uniform_lengthD [OF 1] np_uniform_lengthD [OF 2] by simp_all
  have f: "fetch_past_week_data R use_mock force_refresh today
             = concat (week_frames R lat lon (date_range (today - 7) today) s2)"
    unfolding fetch_past_week_data_ignores_flags [of R use_mock force_refresh]
    by (simp only: fetch_past_week_data_True Let_def 1 2 prod.case)
  have d: "date_range (today - 7) today
             = [today - 7, today - 6, today - 5, today - 4, today - 3, today - 2, today - 1, today]"
    by (simp add: date_range_def upto_rec1)
  have m: "map date (fetch_past_week_data R use_mock force_refresh today)
             = concat (map (replicate 700) (date_range (today - 7) today))"
    unfolding f by (rule week_frames_dates [OF l])
  have "length (map date (fetch_past_week_data R use_mock force_refresh today)) = 5600"
    unfolding m d by simp
  then have n: "length (fetch_past_week_data R use_mock force_refresh today) = 5600"
    by (simp only: length_map)
  from m d have "map date (fetch_past_week_data R use_mock force_refresh today)
      = concat (map (replicate 700) [today - 7, today - 6, today - 5, today - 4,
                                     today - 3, today - 2, today - 1, today])"
    by (simp only:)
  with n show ?thesis by (rule conjI [rotated])
qed

section \<open>Properties of the predictor\<close>

lemma mock_predictions_length: "length (mock_predictions R) = 3000"
  by (auto simp: mock_predictions_def Let_def split: prod.splits
      dest!: np_uniform_lengthD np_normal_lengthD)

lemma mock_predictions_clipped:
  assumes "r \<in> set (mock_predictions R)"
  shows "10 \<le> aqi_pred r \<and> aqi_pred r \<le> 300"
proof -
  obtain lats s1 where 1: "np_uniform R 25 49 3000 (np_seed R 10) = (lats, s1)"
    by (cases "np_uniform R 25 49 3000 (np_seed R 10)")
  obtain lons s2 where 2: "np_uniform R (-124) (-67) 3000 s1 = (lons, s2)"
    by (cases "np_uniform R (-124) (-67) 3000 s1")
  obtain aqi s3 where 3: "np_normal R 75 20 3000 s2 = (aqi, s3)"
    by (cases "np_normal R 75 20 3000 s2")
  have m: "mock_predictions R
             = map (\<lambda>(la, lo, a). \<lparr>pr_latitude = la, pr_longitude = lo, aqi_pred = a\<rparr>)
                 (zip lats (zip lons (map (\<lambda>x. np_clip x 10 300) aqi)))"
    by (simp only: mock_predictions_def Let_def 1 2 3 prod.case)
  from assms obtain la lo a where r: "r = \<lparr>pr_latitude = la, pr_longitude = lo, aqi_pred = a\<rparr>"
    and z: "(la, lo, a) \<in> set (zip lats (zip lons (map (\<lambda>x. np_clip x 10 300) aqi)))"
    unfolding m by auto
  from z have "a \<in> set (map (\<lambda>x. np_clip x 10 300) aqi)"
    by (auto dest!: set_zip_rightD)
  then obtain x where "a = np_clip x 10 300"
    by auto
  with r show ?thesis
    by (simp add: np_clip_def)
qed

lemma mock_predictions_in_box:
  assumes "unit_samples R" and "r \<in> set (mock_predictions R)"
  shows "25 \<le> pr_latitude r \<and> pr_latitude r \<le> 49 \<and> -124 \<le> pr_longitude r \<and> pr_longitude r \<le> -67"
proof -
  obtain lats s1 where 1: "np_uniform R 25 49 3000 (np_seed R 10) = (lats, s1)"
    by (cases "np_uniform R 25 49 3000 (np_seed R 10)")
  obtain lons s2 where 2: "np_uniform R (-124) (-67) 3000 s1 = (lons, s2)"
    by (cases "np_uniform R (-124) (-67) 3000 s1")
  obtain aqi s3 where 3: "np_normal R 75 20 3000 s2 = (aqi, s3)"
    by (cases "np_normal R 75 20 3000 s2")
  have m: "mock_predictions R
             = map (\<lambda>(la, lo, a). \<lparr>pr_latitude = la, pr_longitude = lo, aqi_pred = a\<rparr>)
                 (zip lats (zip lons (map (\<lambda>x. np_clip x 10 300) aqi)))"
    by (simp only: mock_predictions_def Let_def 1 2 3 prod.case)
  from assms(2) obtain la lo a where r: "r = \<lparr>pr_latitude = la, pr_longitude = lo, aqi_pred = a\<rparr>"
    and z: "(la, lo, a) \<in> set (zip lats (zip lons (map (\<lambda>x. np_clip x 10 300) aqi)))"
    unfolding m by auto
  from z have "la \<in> set lats" "lo \<in> set lons"
    by (auto dest: set_zip_leftD set_zip_rightD)
  then have "25 \<le> la \<and> la \<le> 49" "-124 \<le> lo \<and> lo \<le> -67"
    using np_uniform_rangeD [OF assms(1) 1, of la] np_uniform_rangeD [OF assms(1) 2, of lo]
    by simp_all
  with r show ?thesis by simp
qed

lemma predict_tomorrow_fallback:
  "model = None \<or> df_week = None \<or> (\<exists>df. df_week = Some df \<and> length df < 50)
     \<Longrightarrow> predict_tomorrow R df_week model = Inr (mock_predictions R)"
  by (auto simp: predict_tomorrow_def split: option.splits)

lemma predict_tomorrow_unfitted:
  "50 \<le> length df \<Longrightarrow> predict_tomorrow R (Some df) (Some Unfitted) = Inl NotFittedError"
  by (simp add: predict_tomorrow_def linreg_predict_def Let_def)

text \<open>
  Claim C8.  Whenever \<open>predict_tomorrow\<close> returns a table, on the feature path as on the
  synthetic path, every \<open>aqi_pred\<close> in it lies in \<open>[10, 300]\<close>.
\<close>

theorem predict_tomorrow_clipped:
  assumes "predict_tomorrow R df_week model = Inr out"
  shows "\<forall>r \<in> set out. 10 \<le> aqi_pred r \<and> aqi_pred r \<le> 300"
proof (cases "model = None \<or> df_week = None \<or> (\<exists>df. df_week = Some df \<and> length df < 50)")
  case True
  then have "out = mock_predictions R"
    using assms predict_tomorrow_fallback [of model df_week R] by simp
  then show ?thesis
    using mock_predictions_clipped by blast
next
  case False
  then obtain mdl df where md: "model = Some mdl" "df_week = Some df" "\<not> length df < 50"
    by auto
  define pivot where "pivot = filter (\<lambda>(k, a). length a = 3)
      (map (\<lambda>k. (k, map hr_aqi (filter (\<lambda>r. loc r = k) (groupby_tail 3 df))))
         (group_keys (groupby_tail 3 df)))"
  define X where "X = map (\<lambda>(k, a). [a ! (length a - 1), a ! (length a - 2), a ! (length a - 3)]) pivot"
  from assms md obtain p where
    out: "out = map (\<lambda>((k, a), v). \<lparr>pr_latitude = fst k, pr_longitude = snd k,
                                     aqi_pred = np_clip v 10 300\<rparr>) (zip pivot p)"
    by (auto simp: predict_tomorrow_def Let_def pivot_def X_def split: sum.splits)
  show ?thesis
    unfolding out by (auto simp: np_clip_def)
qed

lemma week50_predict:
  "predict_tomorrow counter_np (Some week50) (Some (Fitted [1, 0.5, -0.5] 2))
     = Inr [\<lparr>pr_latitude = 30, pr_longitude = -100, aqi_pred = 51.5\<rparr>]"
  by (simp add: predict_tomorrow_def week50_def upt_rec loc_def group_keys_def
      linreg_predict_def np_clip_def Let_def)

theorem predict_tomorrow_clipped_witness:
  "predict_tomorrow counter_np (Some week50) (Some (Fitted [1, 0.5, -0.5] 2))
     = Inr [\<lparr>pr_latitude = 30, pr_longitude = -100, aqi_pred = 51.5\<rparr>]
   \<and> (10::real) \<le> 51.5 \<and> (51.5::real) \<le> 300
   \<and> predict_tomorrow counter_np None None = Inr (mock_predictions counter_np)
   \<and> list_all (\<lambda>r. 10 \<le> aqi_pred r \<and> aqi_pred r \<le> 300) (mock_predictions counter_np)"
proof -
  have f: "predict_tomorrow counter_np None None = Inr (mock_predictions counter_np)"
    by (simp add: predict_tomorrow_fallback)
  from predict_tomorrow_clipped [OF week50_predict] predict_tomorrow_clipped [OF f]
    week50_predict f
  show ?thesis
    by (simp add: list_all_iff)
qed

lemma shift_nth:
  "i < length xs \<Longrightarrow> shift k xs ! i = (if i < k then None else Some (xs ! (i - k)))"
  by (simp add: shift_def nth_append)

lemma length_shift: "length (shift k xs) = length xs"
  by (simp add: shift_def)

lemma length_make_features: "length (make_features sv g) = length (sv g)"
  by (simp add: make_features_def Let_def length_shift)

lemma make_features_nth:
  assumes "i < length (sv g)"
  shows "make_features sv g ! i =
     (sv g ! i,
      shift 1 (map hr_aqi (sv g)) ! i,
      shift 2 (map hr_aqi (sv g)) ! i,
      shift 3 (map hr_aqi (sv g)) ! i)"
  using assms by (simp add: make_features_def Let_def length_shift)

lemma map_filter_threshold:
  "\<forall>i \<in> set xs. h i = (if i < (k::nat) then None else Some (v i))
     \<Longrightarrow> List.map_filter h xs = map v (filter (\<lambda>i. k \<le> i) xs)"
  by (induction xs) (auto simp: map_filter_simps)

lemma map_filter_of_map: "List.map_filter h (map f xs) = List.map_filter (h \<circ> f) xs"
  by (induction xs) (auto split: option.splits)

lemma filter_upt_from: "filter (\<lambda>i. k \<le> i) [0..<n] = [k..<n]"
proof (induction n)
  case 0
  then show ?case by simp
next
  case (Suc n)
  then show ?case
    by (cases "k \<le> n") (auto simp: upt_Suc_append)
qed

text \<open>
  The complete-lag rows of one group: row \<open>i\<close> of the sorted group, for \<open>i\<close> from 3 on,
  with the AQI of the three rows before it as features and its own AQI as target.
\<close>

lemma dropna_make_features:
  "dropna (make_features sv g) =
     map (\<lambda>i. ([hr_aqi (sv g ! (i - 1)), hr_aqi (sv g ! (i - 2)), hr_aqi (sv g ! (i - 3))],
               hr_aqi (sv g ! i)))
       [3..<length (sv g)]"
proof -
  define n where "n = length (sv g)"
  define sample where
    "sample = (\<lambda>i. ([hr_aqi (sv g ! (i - 1)), hr_aqi (sv g ! (i - 2)), hr_aqi (sv g ! (i - 3))],
                    hr_aqi (sv g ! i)))"
  have mf: "make_features sv g = map (\<lambda>i. make_features sv g ! i) [0..<n]"
    using length_make_features [of sv g] unfolding n_def by (metis map_nth)
  have h: "\<forall>i \<in> set [0..<n].
             (complete_row \<circ> (\<lambda>i. make_features sv g ! i)) i
               = (if i < 3 then None else Some (sample i))"
  proof
    fix i assume "i \<in> set [0..<n]"
    then have i: "i < length (sv g)"
      by (simp add: n_def)
    show "(complete_row \<circ> (\<lambda>i. make_features sv g ! i)) i
            = (if i < 3 then None else Some (sample i))"
      using i by (auto simp: make_features_nth shift_nth sample_def)
  qed
  have "dropna (make_features sv g)
          = List.map_filter (complete_row \<circ> (\<lambda>i. make_features sv g ! i)) [0..<n]"
    unfolding dropna_def by (subst mf) (simp only: map_filter_of_map)
  also have "\<dots> = map sample (filter (\<lambda>i. 3 \<le> i) [0..<n])"
    by (rule map_filter_threshold [OF h])
  finally show ?thesis
    by (simp add: filter_upt_from sample_def n_def)
qed

lemma dropna_append: "dropna (xs @ ys) = dropna xs @ dropna ys"
  by (simp add: dropna_def map_filter_def)

lemma dropna_concat: "dropna (concat xss) = concat (map dropna xss)"
  by (induction xss) (simp_all add: dropna_append, simp add: dropna_def map_filter_simps)

text \<open>
  The training set, written out: the locations in the order of their sorted keys, each
  with its rows as the sort returns them, and from each location the samples above.
\<close>

lemma lagged_explicit:
  "lagged sv df =
     concat (map (\<lambda>g. map (\<lambda>i. ([hr_aqi (g ! (i - 1)), hr_aqi (g ! (i - 2)), hr_aqi (g ! (i - 3))],
                                hr_aqi (g ! i))) [3..<length g])
               (map (\<lambda>k. sv (filter (\<lambda>r. hr_latitude r = fst k \<and> hr_longitude r = snd k) df))
                  (sort (remdups (map (\<lambda>r. (hr_latitude r, hr_longitude r)) df)))))"
proof -
  have l: "(\<lambda>r. loc r = k) = (\<lambda>r. hr_latitude r = fst k \<and> hr_longitude r = snd k)" for k
    by (auto simp: loc_def)
  have k: "group_keys df = sort (remdups (map (\<lambda>r. (hr_latitude r, hr_longitude r)) df))"
    by (simp add: group_keys_def loc_def [abs_def])
  show ?thesis
    by (simp add: lagged_def dropna_concat groupby_loc_def comp_def dropna_make_features l k)
qed

text \<open>
  The number of complete-lag rows does not depend on how the sort orders equal dates:
  every location gives its number of rows less three.
\<close>

lemma length_lagged:
  assumes "sorts_by_date sv"
  shows "length (lagged sv df) = (\<Sum>g\<leftarrow>groupby_loc df. length g - 3)"
proof -
  have "length (sv g) = length g" for g
    using assms unfolding sorts_by_date_def by (metis mset_eq_length)
  then show ?thesis
    by (simp add: lagged_def dropna_concat length_concat comp_def dropna_make_features)
qed

lemma filter_key_distinct:
  "distinct (map f xs) \<Longrightarrow> k \<in> set xs \<Longrightarrow> filter (\<lambda>x. f k = f x) xs = [k]"
proof (induction xs)
  case Nil
  then show ?case by simp
next
  case (Cons a xs)
  show ?case
  proof (cases "k = a")
    case True
    with Cons.prems have "\<forall>x \<in> set xs. f a \<noteq> f x"
      by (metis distinct.simps(2) image_eqI list.simps(9) set_map)
    then have "filter (\<lambda>x. f a = f x) xs = []"
      by (simp add: filter_empty_conv)
    with True show ?thesis by simp
  next
    case False
    with Cons.prems have k: "k \<in> set xs" and d: "distinct (map f xs)"
      by simp_all
    from Cons.prems k have "f k \<noteq> f a"
      by (metis distinct.simps(2) image_eqI list.simps(9) set_map)
    with Cons.IH [OF d k] show ?thesis by simp
  qed
qed

text \<open>
  When the rows of a group have pairwise different dates, as the rows of one location in
  the table of the historical fetcher have, the contract leaves the sort no choice.
\<close>

lemma sorts_by_date_unique:
  assumes "sorts_by_date sv" and "distinct (map date g)"
  shows "sv g = sort_key date g"
proof -
  have m: "mset (sv g) = mset g" and s: "sorted (map date (sv g))"
    using assms(1) unfolding sorts_by_date_def by blast+
  have "mset (map date (sv g)) = mset (map date g)"
    using m by (metis mset_map)
  then have d: "distinct (map date (sv g))"
    using assms(2) by (metis mset_eq_imp_distinct_iff)
  have e: "set (sv g) = set g"
    using m by (rule mset_eq_setD)
  have "sort_key date g = sv g"
  proof (rule properties_for_sort_key [OF m _ s])
    fix k assume k: "k \<in> set (sv g)"
    then have "k \<in> set g" using e by simp
    then have "filter (\<lambda>x. date k = date x) g = [k]"
      by (rule filter_key_distinct [OF assms(2)])
    moreover have "filter (\<lambda>x. date k = date x) (sv g) = [k]"
      by (rule filter_key_distinct [OF d k])
    ultimately show "filter (\<lambda>x. date k = date x) (sv g) = filter (\<lambda>x. date k = date x) g"
      by simp
  qed
  then show ?thesis by simp
qed

text \<open>
  Claim C6.  \<open>train_weekly_predictor\<close> returns an unfitted model for \<open>None\<close> and for a
  table of fewer than 100 rows.  With at least 100 rows the training samples are these: the rows are
  grouped by location, every group is put in the order of its dates, and every row of a
  group from the fourth on gives one sample, whose features are the AQI of the three
  rows before it in the group (lag 1, lag 2, lag 3) and whose target is its own AQI.
  With fewer than 50 samples the function returns an unfitted model, and otherwise the
  model the solver fits to the features and targets.  The function has no failing
  branch.
\<close>

theorem train_weekly_predictor_cases:
  assumes "sorts_by_date sv"
  shows
    "train_weekly_predictor sv fit None = Unfitted
     \<and> (length df < 100 \<longrightarrow> train_weekly_predictor sv fit (Some df) = Unfitted)
     \<and> (100 \<le> length df \<longrightarrow>
          (let place = (\<lambda>k r. hr_latitude r = fst k \<and> hr_longitude r = snd k);
               keys = sort (remdups (map (\<lambda>r. (hr_latitude r, hr_longitude r)) df));
               groups = map (\<lambda>k. sv (filter (place k) df)) keys;
               samples =
                 concat (map (\<lambda>g. map (\<lambda>i. ([hr_aqi (g ! (i - 1)), hr_aqi (g ! (i - 2)),
                                              hr_aqi (g ! (i - 3))], hr_aqi (g ! i)))
                                    [3..<length g]) groups)
           in (\<forall>k. mset (sv (filter (place k) df)) = mset (filter (place k) df)
                    \<and> sorted (map date (sv (filter (place k) df))))
              \<and> train_weekly_predictor sv fit (Some df) =
                  (if length samples < 50 then Unfitted
                   else case fit (map fst samples) (map snd samples) of
                          (coef, b) \<Rightarrow> Fitted coef b)))"
proof (intro conjI impI)
  show "train_weekly_predictor sv fit None = Unfitted"
    by (simp add: train_weekly_predictor_def)
next
  assume "length df < 100"
  then show "train_weekly_predictor sv fit (Some df) = Unfitted"
    by (simp add: train_weekly_predictor_def)
next
  assume a: "100 \<le> length df"
  have c: "mset (sv g) = mset g \<and> sorted (map date (sv g))" for g
    using assms unfolding sorts_by_date_def by blast
  have t: "train_weekly_predictor sv fit (Some df) =
             (if length (lagged sv df) < 50 then Unfitted
              else case fit (map fst (lagged sv df)) (map snd (lagged sv df)) of
                     (coef, b) \<Rightarrow> Fitted coef b)"
    using a by (simp add: train_weekly_predictor_def Let_def)
  show "let place = (\<lambda>k r. hr_latitude r = fst k \<and> hr_longitude r = snd k);
            keys = sort (remdups (map (\<lambda>r. (hr_latitude r, hr_longitude r)) df));
            groups = map (\<lambda>k. sv (filter (place k) df)) keys;
            samples =
              concat (map (\<lambda>g. map (\<lambda>i. ([hr_aqi (g ! (i - 1)), hr_aqi (g ! (i - 2)),
                                           hr_aqi (g ! (i - 3))], hr_aqi (g ! i)))
                                 [3..<length g]) groups)
        in (\<forall>k. mset (sv (filter (place k) df)) = mset (filter (place k) df)
                 \<and> sorted (map date (sv (filter (place k) df))))
           \<and> train_weekly_predictor sv fit (Some df) =
               (if length samples < 50 then Unfitted
                else case fit (map fst samples) (map snd samples) of
                       (coef, b) \<Rightarrow> Fitted coef b)"
    unfolding Let_def t lagged_explicit using c by simp
qed

lemma distinct_singleton_set:
  assumes "distinct xs" and "set xs = {k}"
  shows "xs = [k]"
proof (cases xs)
  case Nil
  with assms(2) show ?thesis by simp
next
  case (Cons a as)
  with assms(2) have a: "a = k" by auto
  have "as = []"
  proof (cases as)
    case Nil
    then show ?thesis .
  next
    case (Cons b bs)
    with \<open>xs = a # as\<close> assms(2) have "b = k" by auto
    with Cons \<open>xs = a # as\<close> a assms(1) show ?thesis by simp
  qed
  with Cons a show ?thesis by simp
qed

lemma filter_distinct_key:
  "distinct (map f xs) \<Longrightarrow> length (filter (\<lambda>r. f r = k) xs) \<le> 1"
proof (induction xs)
  case Nil
  then show ?case by simp
next
  case (Cons a xs)
  show ?case
  proof (cases "f a = k")
    case True
    with Cons.prems have "k \<notin> f ` set xs"
      by simp
    then have "\<forall>x \<in> set xs. f x \<noteq> k"
      by blast
    then have "filter (\<lambda>r. f r = k) xs = []"
      by (simp add: filter_empty_conv)
    with True show ?thesis by simp
  next
    case False
    with Cons show ?thesis by simp
  qed
qed

lemma sorts_by_date_sort_key: "sorts_by_date (sort_key date)"
  by (simp add: sorts_by_date_def)

lemma week100_keys:
  "sort (remdups (map (\<lambda>r. (hr_latitude r, hr_longitude r)) week100)) = [(30, -100)]"
proof -
  have "set (remdups (map (\<lambda>r. (hr_latitude r, hr_longitude r)) week100)) = {(30, -100)}"
    by (auto simp: week100_def intro!: image_eqI [where x = 0])
  then have "remdups (map (\<lambda>r. (hr_latitude r, hr_longitude r)) week100) = [(30, -100)]"
    by (intro distinct_singleton_set) simp_all
  then show ?thesis by simp
qed

lemma week100_group:
  "filter (\<lambda>r. hr_latitude r = 30 \<and> hr_longitude r = -100) week100 = week100"
  by (simp add: week100_def)

lemma week100_sorted: "sort_key date week100 = week100"
proof -
  have "sorted (map int [0..<100])"
    by (simp add: sorted_map sorted_wrt_mono_rel [OF _ sorted_wrt_upt])
  then have "sorted (map date week100)"
    by (simp add: week100_def comp_def)
  then show ?thesis
    by (rule sort_key_id_if_sorted)
qed

lemma week100_rows:
  "length week100 = 100"
  "hr_aqi (week100 ! 0) = 0" "hr_aqi (week100 ! 1) = 1"
  "hr_aqi (week100 ! 2) = 2" "hr_aqi (week100 ! 3) = 3"
  by (simp_all add: week100_def)

lemma scattered100_groups:
  "length (filter (\<lambda>r. hr_latitude r = fst k \<and> hr_longitude r = snd k) scattered100) \<le> 3"
proof -
  have d: "distinct (map loc scattered100)"
    by (simp add: scattered100_def distinct_map loc_def comp_def inj_on_def)
  have "(\<lambda>r. hr_latitude r = fst k \<and> hr_longitude r = snd k) = (\<lambda>r. loc r = k)"
    by (auto simp: loc_def)
  then show ?thesis
    using filter_distinct_key [OF d, of k] by simp
qed

lemma concat_samples_empty:
  "(\<And>k. length (G k) \<le> 3) \<Longrightarrow> concat (map (\<lambda>g. map (F g) [3..<length g]) (map G ks)) = []"
  by (induction ks) simp_all

theorem train_weekly_predictor_cases_witness:
  "sorts_by_date (sort_key date)
   \<and> train_weekly_predictor (sort_key date) first_sample_fit None = Unfitted
   \<and> length scattered100 = 100
   \<and> train_weekly_predictor (sort_key date) first_sample_fit (Some scattered100) = Unfitted
   \<and> length week100 = 100
   \<and> train_weekly_predictor (sort_key date) first_sample_fit (Some week100) = Fitted [2, 1, 0] 3"
proof -
  note T = train_weekly_predictor_cases [OF sorts_by_date_sort_key, where fit = first_sample_fit]
  have n: "train_weekly_predictor (sort_key date) first_sample_fit None = Unfitted"
    using T [where df = "[]"] by simp
  have ls: "length scattered100 = 100"
    by (simp add: scattered100_def)
  have es: "concat (map (\<lambda>g. map (\<lambda>i. ([hr_aqi (g ! (i - 1)), hr_aqi (g ! (i - 2)),
                                        hr_aqi (g ! (i - 3))], hr_aqi (g ! i)))
                              [3..<length g])
              (map (\<lambda>k. sort_key date
                          (filter (\<lambda>r. hr_latitude r = fst k \<and> hr_longitude r = snd k)
                             scattered100))
                 (sort (remdups (map (\<lambda>r. (hr_latitude r, hr_longitude r)) scattered100)))))
            = []"
    by (rule concat_samples_empty) (simp add: scattered100_groups)
  have s: "train_weekly_predictor (sort_key date) first_sample_fit (Some scattered100) = Unfitted"
    using T [where df = scattered100, unfolded Let_def es] ls by simp
  have ew: "concat (map (\<lambda>g. map (\<lambda>i. ([hr_aqi (g ! (i - 1)), hr_aqi (g ! (i - 2)),
                                        hr_aqi (g ! (i - 3))], hr_aqi (g ! i)))
                              [3..<length g])
              (map (\<lambda>k. sort_key date
                          (filter (\<lambda>r. hr_latitude r = fst k \<and> hr_longitude r = snd k)
                             week100))
                 (sort (remdups (map (\<lambda>r. (hr_latitude r, hr_longitude r)) week100)))))
            = map (\<lambda>i. ([hr_aqi (week100 ! (i - 1)), hr_aqi (week100 ! (i - 2)),
                          hr_aqi (week100 ! (i - 3))], hr_aqi (week100 ! i)))
                (3 # [4..<100])"
    by (simp add: week100_keys week100_group week100_sorted week100_rows(1) upt_conv_Cons)
  have w: "train_weekly_predictor (sort_key date) first_sample_fit (Some week100) = Fitted [2, 1, 0] 3"
    using T [where df = week100, unfolded Let_def ew] week100_rows
    by (simp add: first_sample_fit_def)
  from n ls s w sorts_by_date_sort_key week100_rows(1) show ?thesis
    by simp
qed

text \<open>
  Claim C3 says that an untrained model, like a table of fewer than 50 rows, makes
  \<open>predict_tomorrow\<close> return the 3000 synthetic predictions without raising.  The function
  takes the synthetic path when the model is \<open>None\<close>, not when it is untrained.  On a
  table of 60 rows \<open>train_weekly_predictor\<close> returns an unfitted model, and
  \<open>predict_tomorrow\<close> on that table and that model raises \<open>NotFittedError\<close>.
\<close>

theorem predict_tomorrow_untrained_model_raises:
  "length week60 = 60
   \<and> train_weekly_predictor sv fit (Some week60) = Unfitted
   \<and> predict_tomorrow R (Some week60) (Some (train_weekly_predictor sv fit (Some week60)))
       = Inl NotFittedError"
proof -
  have l: "length week60 = 60"
    by (simp add: week60_def)
  then have t: "train_weekly_predictor sv fit (Some week60) = Unfitted"
    by (simp add: train_weekly_predictor_def)
  from l have "predict_tomorrow R (Some week60) (Some Unfitted) = Inl NotFittedError"
    by (intro predict_tomorrow_unfitted) simp
  with l t show ?thesis by simp
qed

section \<open>Properties of the point fetcher\<close>

lemma py_iter_fetch_point: "\<exists>xs. py_iter (fetch_point r) = Inr xs"
proof (cases r)
  case RequestFailed
  then show ?thesis by (simp add: fetch_point_def)
next
  case (Response status body)
  show ?thesis
  proof (cases body)
    case None
    with Response show ?thesis by (simp add: fetch_point_def)
  next
    case (Some data)
    with Response show ?thesis
      by (cases data) (simp_all add: fetch_point_def)
  qed
qed

lemma extend_all_fetched:
  "extend_all acc (map fetch_point completed) = Inr (acc @ fetched completed)"
proof (induction completed arbitrary: acc)
  case Nil
  then show ?case by (simp add: fetched_def)
next
  case (Cons r rs)
  obtain xs where xs: "py_iter (fetch_point r) = Inr xs"
    using py_iter_fetch_point by blast
  have "fetched (r # rs) = xs @ fetched rs"
    by (simp add: fetched_def xs)
  with Cons [of "acc @ xs"] xs show ?case
    by simp
qed

lemma load_aqi_data_few:
  "length (fetched completed) < 10 \<Longrightarrow> load_aqi_data R False completed = mock_aqi_data R 1000"
  by (simp add: load_aqi_data_def extend_all_fetched)

lemma mock_row_ok:
  assumes "choice_member R"
  shows "\<exists>r s'. mock_row R s = Inr (r, s')"
proof -
  obtain category s1 where c: "rnd_choice R [''Good'', ''Moderate'', ''Unhealthy''] s = (category, s1)"
    by (cases "rnd_choice R [''Good'', ''Moderate'', ''Unhealthy''] s")
  from assms have "fst (rnd_choice R [''Good'', ''Moderate'', ''Unhealthy''] s)
      \<in> set [''Good'', ''Moderate'', ''Unhealthy'']"
    unfolding choice_member_def by blast
  with c have "category \<in> set [''Good'', ''Moderate'', ''Unhealthy'']"
    by simp
  then have "map_of mock_colors category \<noteq> None"
    by (auto simp: mock_colors_def)
  then obtain color where "map_of mock_colors category = Some color"
    by blast
  then show ?thesis
    by (simp add: mock_row_def c Let_def split: prod.splits)
qed

lemma mock_rows_ok:
  "choice_member R \<Longrightarrow> \<exists>rows. mock_rows R n s = Inr rows \<and> length rows = n"
proof (induction n arbitrary: s)
  case 0
  then show ?case by simp
next
  case (Suc n)
  from mock_row_ok [OF Suc.prems] obtain r s' where r: "mock_row R s = Inr (r, s')"
    by blast
  from Suc.IH [OF Suc.prems] obtain rows where "mock_rows R n s' = Inr rows" "length rows = n"
    by blast
  with r show ?case by simp
qed

lemma mock_aqi_data_ok:
  "choice_member R \<Longrightarrow> \<exists>rows. mock_aqi_data R n = Inr rows \<and> length rows = n"
  unfolding mock_aqi_data_def by (rule mock_rows_ok)

text \<open>
  Claim C1, as the code has it.  The threshold is on the items fetched, before any is
  dropped: when fewer than 10 items were fetched in all (every request failing is the
  case of none), \<open>load_aqi_data\<close> in non-mock mode discards them and returns the synthetic
  table of seed 42, which has 1000 rows when \<open>random.choice\<close> keeps its contract.  The
  table does not depend on the run: two runs below the threshold return the same value.
\<close>

theorem load_aqi_data_fallback:
  assumes "choice_member R"
    and "length (fetched run1) < 10" and "length (fetched run2) < 10"
  shows "load_aqi_data R False run1 = mock_aqi_data R 1000
    \<and> load_aqi_data R False run2 = load_aqi_data R False run1
    \<and> (\<exists>rows. mock_aqi_data R 1000 = Inr rows \<and> length rows = 1000)"
  using assms mock_aqi_data_ok [of R 1000] by (simp add: load_aqi_data_few)

lemma choice_member_counter_rnd: "choice_member counter_rnd"
  by (simp add: choice_member_def counter_rnd_def)

lemma fetched_Cons:
  "fetched (r # rs) = (case py_iter (fetch_point r) of Inl e \<Rightarrow> [] | Inr xs \<Rightarrow> xs) @ fetched rs"
  by (simp add: fetched_def)

lemma fetched_all_failed: "fetched (replicate n RequestFailed) = []"
  by (induction n) (simp_all add: fetched_def fetch_point_def)

lemma fetched_one:
  "fetched (Response 200 (Some (JArr [complete_record])) # replicate 24 RequestFailed)
     = [complete_record]"
  by (simp add: fetched_Cons fetched_all_failed fetch_point_def)

theorem load_aqi_data_fallback_witness:
  "choice_member counter_rnd
   \<and> length (fetched (replicate 25 RequestFailed)) < 10
   \<and> length (fetched (Response 200 (Some (JArr [complete_record])) # replicate 24 RequestFailed))
       < 10
   \<and> load_aqi_data counter_rnd False (replicate 25 RequestFailed) = mock_aqi_data counter_rnd 1000
   \<and> load_aqi_data counter_rnd False
         (Response 200 (Some (JArr [complete_record])) # replicate 24 RequestFailed)
       = load_aqi_data counter_rnd False (replicate 25 RequestFailed)
   \<and> (\<exists>rows. mock_aqi_data counter_rnd 1000 = Inr rows \<and> length rows = 1000)"
proof -
  have 1: "length (fetched (replicate 25 RequestFailed)) < 10"
    by (simp only: fetched_all_failed) simp
  have 2: "length (fetched (Response 200 (Some (JArr [complete_record]))
                             # replicate 24 RequestFailed)) < 10"
    by (simp only: fetched_one) simp
  from load_aqi_data_fallback [OF choice_member_counter_rnd 1 2] choice_member_counter_rnd 1 2
  show ?thesis by simp
qed

lemma replicate_nine: "replicate 9 x = [x, x, x, x, x, x, x, x, x]"
  by (simp add: numeral_eq_Suc)

lemma fetched_ten_records:
  "fetched ten_records = complete_record # [record_without_aqi, record_without_aqi,
     record_without_aqi, record_without_aqi, record_without_aqi, record_without_aqi,
     record_without_aqi, record_without_aqi, record_without_aqi]"
  by (simp add: fetched_Cons fetched_all_failed fetch_point_def ten_records_def replicate_nine)

lemma ten_records_result:
  "load_aqi_data counter_rnd False ten_records =
     Inr [[(''latitude'', JNum 47.61), (''longitude'', JNum (-122.33)),
           (''parameter'', JStr ''PM2.5''), (''aqi'', JNum 42), (''category'', JStr ''Good''),
           (''unit'', JNull), (''reportingArea'', JNull), (''stateCode'', JNull),
           (''utc'', JNull), (''color'', JStr ''green''), (''region'', JStr ''USA'')]]"
  by (simp add: load_aqi_data_def extend_all_fetched fetched_ten_records
      complete_record_def record_without_aqi_def map_filter_simps py_get_def
      dropna_subset_def columns_def drop_duplicates_def row_key_def color_map_def Let_def)

text \<open>
  The claim counts usable records.  Of 25 requests one succeeds here, with ten records,
  nine of them without an AQI: one record is usable, and the result is the table of that
  one record, not the synthetic table.
\<close>

theorem load_aqi_data_usable_counterexample:
  "length (usable (fetched ten_records)) = 1
   \<and> load_aqi_data counter_rnd False ten_records \<noteq> mock_aqi_data counter_rnd 1000"
proof -
  have u: "length (usable (fetched ten_records)) = 1"
    by (simp add: usable_def fetched_ten_records complete_record_def record_without_aqi_def
        map_filter_simps py_get_def)
  obtain rows where "mock_aqi_data counter_rnd 1000 = Inr rows" "length rows = 1000"
    using mock_aqi_data_ok [OF choice_member_counter_rnd] by blast
  then have "load_aqi_data counter_rnd False ten_records \<noteq> mock_aqi_data counter_rnd 1000"
    by (auto simp: ten_records_result)
  with u show ?thesis by simp
qed

lemma keep_first_distinct:
  "distinct (map key (keep_first key seen rows))
   \<and> set (map key (keep_first key seen rows)) \<inter> set seen = {}"
proof (induction rows arbitrary: seen)
  case Nil
  then show ?case by simp
next
  case (Cons r rs)
  show ?case
  proof (cases "key r \<in> set seen")
    case True
    with Cons [of seen] show ?thesis by simp
  next
    case False
    with Cons [of "key r # seen"] show ?thesis by auto
  qed
qed

lemma drop_duplicates_distinct:
  "drop_duplicates cols df = Inr df' \<Longrightarrow> distinct (map (row_key cols) df')"
  using keep_first_distinct [of "row_key cols" "[]" df]
  by (auto simp: drop_duplicates_def split: if_splits)

lemma py_get_append:
  "k \<notin> fst ` set extra \<Longrightarrow> py_get (r @ extra) k = py_get r k"
proof -
  assume "k \<notin> fst ` set extra"
  then have "map_of extra k = None"
    by (simp add: map_of_eq_None_iff)
  then show ?thesis
    by (simp add: py_get_def map_add_def split: option.splits)
qed

lemma add_colors_keys:
  assumes "''color'' \<notin> set cols" and "''region'' \<notin> set cols"
  shows "add_colors df = Inr df' \<Longrightarrow> map (row_key cols) df' = map (row_key cols) df"
proof (induction df arbitrary: df')
  case Nil
  then show ?case by simp
next
  case (Cons r rs)
  from Cons.prems obtain c rs' where c: "category_color (py_get r ''category'') = Inr c"
    and rs': "add_colors rs = Inr rs'"
    and df': "df' = (r @ [(''color'', c), (''region'', JStr ''USA'')]) # rs'"
    by (auto split: sum.splits)
  have "row_key cols (r @ [(''color'', c), (''region'', JStr ''USA'')]) = row_key cols r"
    unfolding row_key_def
  proof (rule map_cong [OF refl])
    fix k assume "k \<in> set cols"
    with assms have "k \<notin> fst ` set [(''color'', c), (''region'', JStr ''USA'')]"
      by auto
    then have "py_get (r @ [(''color'', c), (''region'', JStr ''USA'')]) k = py_get r k"
      by (rule py_get_append)
    then show "py_key (py_get (r @ [(''color'', c), (''region'', JStr ''USA'')]) k)
                 = py_key (py_get r k)"
      by (rule arg_cong)
  qed
  with Cons.IH [OF rs'] df' show ?case
    by simp
qed

text \<open>
  On the path that normalises fetched records, the table returned has no two rows with
  the same (latitude, longitude, parameter) key.
\<close>

lemma load_aqi_data_normalised_distinct:
  assumes "10 \<le> length (fetched completed)"
    and "load_aqi_data R False completed = Inr df"
  shows "distinct (map (row_key [''latitude'', ''longitude'', ''parameter'']) df)"
proof -
  from assms obtain d1 d2 where
    "drop_duplicates [''latitude'', ''longitude'', ''parameter''] d1 = Inr d2"
    and a: "add_colors d2 = Inr df"
    by (auto simp: load_aqi_data_def extend_all_fetched Let_def split: sum.splits if_splits)
  then have "distinct (map (row_key [''latitude'', ''longitude'', ''parameter'']) d2)"
    by (simp add: drop_duplicates_distinct)
  moreover have "map (row_key [''latitude'', ''longitude'', ''parameter'']) df
                   = map (row_key [''latitude'', ''longitude'', ''parameter'']) d2"
    by (rule add_colors_keys [OF _ _ a]) simp_all
  ultimately show ?thesis by simp
qed

text \<open>
  The synthetic table holds the generator's draws as they come; no step removes a
  repeated key.  With the counter generator the first and the third row have the same
  key.  Whether the rows of the synthetic table are pairwise different is a property
  of the stream of the library's generator after seed 42.
\<close>

lemma mock_rows_not_deduplicated:
  "\<exists>rows. mock_rows counter_rnd (Suc (Suc (Suc 0))) (rnd_seed counter_rnd 42) = Inr rows
     \<and> \<not> distinct (map (row_key [''latitude'', ''longitude'', ''parameter'']) rows)"
  by (simp add: counter_rnd_def mock_row_def mock_colors_def row_key_def py_get_def Let_def)
     (simp flip: numeral_2_eq_2)

section \<open>Properties of the orchestrator\<close>

text \<open>
  The last import of \<open>main.py\<close> asks \<open>map_builder\<close> for \<open>build_map\<close>; the module defines
  \<open>make_map\<close> and \<open>get_aqi_color\<close> only.
\<close>

lemma main_imports_fail:
  "import_all main_imports = Inl (ImportError ''map_builder'' ''build_map'')"
  by (simp add: main_imports_def import_from_def module_names_def)

text \<open>
  Claim C2 says that every stage's failure is caught so that the later stages run, and
  that a successful run exits with status 0.  Running \<open>main.py\<close> stops at its imports
  with \<open>ImportError\<close>, whatever the stages would do: nothing is printed, no stage runs,
  and the exit status is 1.
\<close>

theorem run_main_py_import_error:
  "run_main_py st force_refresh = ([], Inl (ImportError ''map_builder'' ''build_map''))
   \<and> exit_status (run_main_py st force_refresh) = 1"
  by (simp add: run_main_py_def main_imports_fail exit_status_def)

text \<open>
  The body of \<open>main\<close>, had the imports succeeded: an exception of the historical fetch
  leaves \<open>main\<close>, and so does the replacement of an empty history, which imports a name
  \<open>predict_aqi\<close> does not define.  After a non-empty history \<open>main\<close> always returns: the
  aerosol, training and prediction failures are caught, and a map failure is reported
  before the early return.
\<close>

lemma main_historical_fetch_uncaught:
  "st_fetch_past_week_data st force_refresh = Inl e \<Longrightarrow> main st force_refresh = ([Loading], Inl e)"
  by (simp add: main_def step1_def)

lemma main_empty_history_uncaught:
  "st_fetch_past_week_data st force_refresh = Inr None
     \<or> st_fetch_past_week_data st force_refresh = Inr (Some [])
   \<Longrightarrow> main st force_refresh
        = ([Loading, NoAqiData], Inl (ImportError ''predict_aqi'' ''_mock_weekly_data''))"
  by (auto simp: main_def step1_def import_from_def module_names_def)

lemma main_after_history:
  "st_fetch_past_week_data st force_refresh = Inr (Some df) \<Longrightarrow> df \<noteq> []
     \<Longrightarrow> snd (main st force_refresh) = Inr ()
       \<and> (\<exists>out. fst (main st force_refresh) = Loading # out @ [Done]
              \<or> (\<exists>e. fst (main st force_refresh) = Loading # out @ [MapFailed e]))"
  by (auto simp: main_def step1_def steps2to6_def Let_def split: sum.splits option.splits prod.splits)

end
